theory Spec2Isabelle
  imports Main "HOL-Library.Word"
begin

section \<open>Python strings\<close>

text \<open>
  A Python \<open>str\<close> is modelled as a \<open>string\<close> whose characters are the code points
  0..255 (Latin-1); a \<open>bytes\<close> value is a list of 8-bit words. Python integers are
  unbounded and are modelled by \<open>int\<close> (the interpreter's optional limit on the number
  of digits of a string-to-integer conversion is not modelled).
\<close>

definition is_space :: "char \<Rightarrow> bool" where
  \<comment> \<open>\<open>str.isspace\<close>, which is also what \<open>strip()\<close>, \<open>split()\<close> and the regex class
      \<open>\s\<close> use: TAB..CR, FS..US, space, NEL and NBSP below code point 256.\<close>
  "is_space c = (let n = (of_char c :: nat) in
     (9 \<le> n \<and> n \<le> 13) \<or> (28 \<le> n \<and> n \<le> 32) \<or> n = 133 \<or> n = 160)"

definition is_digit :: "char \<Rightarrow> bool" where
  \<comment> \<open>the regex class \<open>\d\<close>: below code point 256 only the ASCII digits\<close>
  "is_digit c = (let n = (of_char c :: nat) in 48 \<le> n \<and> n \<le> 57)"

definition lower_char :: "char \<Rightarrow> char" where
  \<comment> \<open>\<open>str.lower\<close> on one code point: A..Z and the Latin-1 capitals\<close>
  "lower_char c = (let n = (of_char c :: nat) in
     if (65 \<le> n \<and> n \<le> 90) \<or> (192 \<le> n \<and> n \<le> 222 \<and> n \<noteq> 215)
     then char_of (n + 32) else c)"

definition lower :: "string \<Rightarrow> string" where
  "lower s = map lower_char s"

definition lstrip :: "string \<Rightarrow> string" where
  "lstrip s = dropWhile is_space s"

definition rstrip :: "string \<Rightarrow> string" where
  "rstrip s = rev (dropWhile is_space (rev s))"

definition strip :: "string \<Rightarrow> string" where
  "strip s = rstrip (lstrip s)"

fun startswith :: "string \<Rightarrow> string \<Rightarrow> bool" where
  \<comment> \<open>\<open>s.startswith(p)\<close>\<close>
  "startswith s [] = True"
| "startswith [] (p # ps) = False"
| "startswith (c # cs) (p # ps) = (c = p \<and> startswith cs ps)"

definition endswith :: "string \<Rightarrow> string \<Rightarrow> bool" where
  "endswith s p = startswith (rev s) (rev p)"

fun contains :: "string \<Rightarrow> string \<Rightarrow> bool" where
  \<comment> \<open>\<open>sub in s\<close>, written \<open>contains sub s\<close>\<close>
  "contains sub [] = (sub = [])"
| "contains sub (c # cs) = (startswith (c # cs) sub \<or> contains sub cs)"

fun join :: "string \<Rightarrow> string list \<Rightarrow> string" where
  \<comment> \<open>\<open>sep.join(xs)\<close>\<close>
  "join sep [] = []"
| "join sep [x] = x"
| "join sep (x # y # ys) = x @ sep @ join sep (y # ys)"

fun split_ws_loop :: "string \<Rightarrow> string \<Rightarrow> string list" where
  \<comment> \<open>the scan of \<open>str.split()\<close>: the second argument is the word being read\<close>
  "split_ws_loop [] w = (if w = [] then [] else [w])"
| "split_ws_loop (c # cs) w =
     (if is_space c then (if w = [] then split_ws_loop cs [] else w # split_ws_loop cs [])
      else split_ws_loop cs (w @ [c]))"

definition split_ws :: "string \<Rightarrow> string list" where
  \<comment> \<open>\<open>s.split()\<close>: the maximal runs of non-whitespace characters\<close>
  "split_ws s = split_ws_loop s []"

fun split_on_loop :: "char \<Rightarrow> string \<Rightarrow> string \<Rightarrow> string list" where
  "split_on_loop sep [] w = [w]"
| "split_on_loop sep (c # cs) w =
     (if c = sep then w # split_on_loop sep cs [] else split_on_loop sep cs (w @ [c]))"

definition split_on :: "char \<Rightarrow> string \<Rightarrow> string list" where
  \<comment> \<open>\<open>s.split(sep)\<close> for a one-character separator: empty pieces are kept\<close>
  "split_on sep s = split_on_loop sep s []"

fun str_nat :: "nat \<Rightarrow> string" where
  \<comment> \<open>\<open>str(n)\<close> for a non-negative integer\<close>
  "str_nat n = (if n < 10 then [char_of (48 + n)]
                else str_nat (n div 10) @ [char_of (48 + n mod 10)])"

declare str_nat.simps [simp del]

definition int_of_digits :: "string \<Rightarrow> nat" where
  \<comment> \<open>\<open>int(s)\<close> for a string of ASCII digits\<close>
  "int_of_digits s = foldl (\<lambda>acc c. 10 * acc + (of_char c - 48)) 0 s"

section \<open>Errors\<close>

datatype error =
    ValueError string
  | IndexError
  | SchemaMismatch nat string nat nat "string list"
  | TypeError
  | Exception string
  | LibraryError

text \<open>
  \<open>ValueError\<close> and \<open>Exception\<close> carry their message. \<open>IndexError\<close> is the
  interpreter's own "list index out of range"; \<open>SchemaMismatch idx table record_fields
  field_count field_types\<close> is the \<open>IndexError\<close> that \<open>convert_record\<close> raises with a
  message built from these data. \<open>TypeError\<close> is the interpreter's error for an
  operation applied to a value of the wrong type, \<open>LibraryError\<close> any error raised
  inside a library call that is a parameter of the model.
\<close>

section \<open>split_high_level\<close>

fun shl_loop :: "string \<Rightarrow> char \<Rightarrow> string list \<Rightarrow> int \<Rightarrow> string \<Rightarrow> string list \<times> string" where
  \<comment> \<open>the \<open>for c in data\<close> loop, on the state \<open>(results, level, curr_data)\<close>\<close>
  "shl_loop [] token results level curr_data = (results, curr_data)"
| "shl_loop (c # data) token results level curr_data =
     (if c = token \<and> level = 0
      then shl_loop data token (results @ [strip curr_data]) level []
      else let level1 = (if c = CHR ''('' then level + 1 else level);
               level2 = (if c = CHR '')'' then level1 - 1 else level1)
           in shl_loop data token results level2 (curr_data @ [c]))"

definition split_high_level :: "string \<Rightarrow> char \<Rightarrow> string list" where
  "split_high_level data token =
     (case shl_loop data token [] 0 [] of
        (results, curr_data) \<Rightarrow>
          if curr_data \<noteq> [] then results @ [strip curr_data] else results)"

subsection \<open>The cuts of the loop, by position\<close>

definition paren_depth :: "string \<Rightarrow> int" where
  \<comment> \<open>the counter \<open>level\<close> of the loop after reading \<open>s\<close>: opening minus closing
      parentheses; it is negative after a closing parenthesis that nothing opened\<close>
  "paren_depth s = int (count_list s (CHR ''('')) - int (count_list s (CHR '')''))"

definition cut_points :: "char \<Rightarrow> string \<Rightarrow> nat list" where
  \<comment> \<open>the positions of the separator at which that counter is 0\<close>
  "cut_points token data =
     filter (\<lambda>i. data ! i = token \<and> paren_depth (take i data) = 0) [0..<length data]"

fun slices :: "string \<Rightarrow> nat \<Rightarrow> nat list \<Rightarrow> string list" where
  \<comment> \<open>the pieces of \<open>data\<close> from \<open>start\<close> on, between the given positions\<close>
  "slices data start [] = [drop start data]"
| "slices data start (c # cs) = take (c - start) (drop start data) # slices data (Suc c) cs"

definition drop_empty_last :: "string list \<Rightarrow> string list" where
  \<comment> \<open>the last piece is not reported when it is empty\<close>
  "drop_empty_last segs = (if last segs = [] then butlast segs else segs)"

fun raw_split :: "char \<Rightarrow> int \<Rightarrow> string \<Rightarrow> string \<Rightarrow> string list" where
  \<comment> \<open>the unstripped pieces the loop passes through, the one in progress last\<close>
  "raw_split token level cur [] = [cur]"
| "raw_split token level cur (c # data) =
     (if c = token \<and> level = 0 then cur # raw_split token level [] data
      else raw_split token
             (if c = CHR '')'' then (if c = CHR ''('' then level + 1 else level) - 1
              else (if c = CHR ''('' then level + 1 else level))
             (cur @ [c]) data)"

section \<open>Python values\<close>

type_synonym byte = "8 word"

datatype coord = CInt int | CFloat "64 word"

text \<open>
  A coordinate is a Python number: an \<open>int\<close>, or a \<open>float\<close>, which is represented by
  its IEEE-754 binary64 bit pattern (what \<open>struct.unpack\<close> reads).
\<close>

datatype pyval =
    PyNone
  | PyInt int
  | PyStr string
  | PyBytes "byte list"
  | PySet "string list"
  | PyTuple2 coord coord

text \<open>
  The column values the transcoder distinguishes: \<open>None\<close>, an integer, a text string,
  a byte string, a set of labels (given by a list of its elements) and the coordinate
  pair that the geometry decoder returns.
\<close>

definition bind_err :: "error + 'a \<Rightarrow> ('a \<Rightarrow> error + 'b) \<Rightarrow> error + 'b" where
  \<comment> \<open>sequencing: an exception raised by the first step ends the call\<close>
  "bind_err m f = (case m of Inl e \<Rightarrow> Inl e | Inr x \<Rightarrow> f x)"

definition nth_or_raise :: "'a list \<Rightarrow> nat \<Rightarrow> error + 'a" where
  \<comment> \<open>\<open>xs[i]\<close> for \<open>i \<ge> 0\<close>\<close>
  "nth_or_raise xs i = (if i < length xs then Inr (xs ! i) else Inl IndexError)"

definition py_slice :: "'a list \<Rightarrow> nat \<Rightarrow> nat \<Rightarrow> 'a list" where
  \<comment> \<open>\<open>xs[a:b]\<close> for \<open>0 \<le> a\<close>, \<open>0 \<le> b\<close>\<close>
  "py_slice xs a b = take (b - a) (drop a xs)"

section \<open>parse_mysql_point\<close>

datatype endian = Big | Little

definition be_nat :: "byte list \<Rightarrow> nat" where
  \<comment> \<open>the number whose base-256 digits are the bytes, most significant first\<close>
  "be_nat bs = foldl (\<lambda>acc b. 256 * acc + unat b) 0 bs"

definition unpack_uint :: "endian \<Rightarrow> byte list \<Rightarrow> nat" where
  \<comment> \<open>\<open>struct.unpack(endian + 'I', bs)[0]\<close> on four bytes\<close>
  "unpack_uint e bs = (case e of Big \<Rightarrow> be_nat bs | Little \<Rightarrow> be_nat (rev bs))"

definition unpack_double :: "endian \<Rightarrow> byte list \<Rightarrow> 64 word" where
  \<comment> \<open>\<open>struct.unpack(endian + 'd', bs)[0]\<close> on eight bytes, as a bit pattern\<close>
  "unpack_double e bs = (case e of Big \<Rightarrow> word_of_nat (be_nat bs)
                                 | Little \<Rightarrow> word_of_nat (be_nat (rev bs)))"

definition parse_wkb_bytes :: "byte list \<Rightarrow> error + pyval" where
  "parse_wkb_bytes binary =
     (if length binary = 21 then
        (let byte_order = binary ! 0 in
         if byte_order \<noteq> 0 \<and> byte_order \<noteq> 1
         then Inl (ValueError ''Invalid byte order in WKB POINT'')
         else
           let endian = (if byte_order = 0 then Big else Little);
               wkb_type = unpack_uint endian (py_slice binary 1 5)
           in if wkb_type \<noteq> 1 then Inl (ValueError ''Not a WKB POINT type'')
              else Inr (PyTuple2 (CFloat (unpack_double endian (py_slice binary 5 13)))
                                 (CFloat (unpack_double endian (py_slice binary 13 21)))))
      else if length binary = 25 then
        (let srid = unpack_uint Big (py_slice binary 0 4);
             byte_order = binary ! 4 in
         if byte_order \<noteq> 0 \<and> byte_order \<noteq> 1
         then Inl (ValueError ''Invalid byte order in WKB POINT'')
         else
           let endian = (if byte_order = 0 then Big else Little);
               wkb_type = unpack_uint endian (py_slice binary 5 9)
           in if wkb_type \<noteq> 1 then Inl (ValueError ''Not a WKB POINT type'')
              else Inr (PyTuple2 (CFloat (unpack_double endian (py_slice binary 9 17)))
                                 (CFloat (unpack_double endian (py_slice binary 17 25)))))
      else Inl (ValueError ''Invalid binary length for WKB POINT''))"

fun parse_mysql_point :: "pyval \<Rightarrow> error + pyval" where
  "parse_mysql_point PyNone = Inr (PyTuple2 (CInt 0) (CInt 0))"
| "parse_mysql_point (PyBytes binary) = parse_wkb_bytes binary"
| "parse_mysql_point (PyInt i) = Inl TypeError"
  \<comment> \<open>\<open>len\<close> of an integer\<close>
| "parse_mysql_point (PyStr s) =
     (if length s = 21 then Inl (ValueError ''Invalid byte order in WKB POINT'')
      else if length s = 25 then Inl TypeError
      else Inl (ValueError ''Invalid binary length for WKB POINT''))"
  \<comment> \<open>a character is neither 0 nor 1; \<open>struct.unpack\<close> refuses a text string\<close>
| "parse_mysql_point (PySet xs) =
     (if card (set xs) = 21 \<or> card (set xs) = 25 then Inl TypeError
      else Inl (ValueError ''Invalid binary length for WKB POINT''))"
  \<comment> \<open>a set cannot be indexed\<close>
| "parse_mysql_point (PyTuple2 x y) = Inl (ValueError ''Invalid binary length for WKB POINT'')"

section \<open>The converter and its configuration\<close>

record db_replicator =
  database :: string
  target_database :: string
  is_database_matches :: "string \<Rightarrow> bool"
  is_table_matches :: "string \<Rightarrow> bool"
  config_types_mapping :: "string \<rightharpoonup> string"

text \<open>
  The replication session as the converter reads it: the source and target database
  names and, from its configuration, the two inclusion predicates and the table of
  type overrides.
\<close>

record converter =
  conv_db_replicator :: "db_replicator option"
  types_mapping :: "string \<rightharpoonup> string"

definition init_converter :: "db_replicator option \<Rightarrow> converter" where
  \<comment> \<open>\<open>MysqlToClickhouseConverter.__init__\<close>\<close>
  "init_converter r =
     \<lparr> conv_db_replicator = r,
       types_mapping = (case r of None \<Rightarrow> Map.empty | Some d \<Rightarrow> config_types_mapping d) \<rparr>"

section \<open>convert_type\<close>

function str_replace :: "string \<Rightarrow> string \<Rightarrow> string \<Rightarrow> string" where
  \<comment> \<open>\<open>s.replace(old, new)\<close> for a non-empty \<open>old\<close>: every occurrence, left to right\<close>
  "str_replace old new s =
     (if old = [] \<or> s = [] then s
      else if startswith s old then new @ str_replace old new (drop (length old) s)
      else hd s # str_replace old new (tl s))"
  by pat_completeness auto
termination
  by (relation "measure (\<lambda>(old, new, s). length s)") auto

declare str_replace.simps [simp del]

definition re_numeric_at :: "string \<Rightarrow> (string \<times> string) option" where
  \<comment> \<open>a match of \<open>numeric\((\d+)\s*,\s*(\d+)\)\<close> at the start of the string, with its two
      groups. The classes of adjacent parts are disjoint, so the longest run of each is
      the only one a match can take.\<close>
  "re_numeric_at s =
     (if startswith s ''numeric('' then
        (let r = drop 8 s; p = takeWhile is_digit r; r1 = dropWhile is_digit r in
         if p = [] then None
         else (case dropWhile is_space r1 of
                 [] \<Rightarrow> None
               | c # r3 \<Rightarrow>
                   if c \<noteq> CHR '','' then None
                   else (let r4 = dropWhile is_space r3;
                             q = takeWhile is_digit r4; r5 = dropWhile is_digit r4 in
                         if q = [] then None
                         else (case r5 of
                                 [] \<Rightarrow> None
                               | d # r6 \<Rightarrow> if d = CHR '')'' then Some (p, q) else None))))
      else None)"

fun re_search_numeric :: "string \<Rightarrow> (string \<times> string) option" where
  \<comment> \<open>\<open>re.search\<close> of that pattern: the leftmost match\<close>
  "re_search_numeric [] = None"
| "re_search_numeric (c # cs) =
     (case re_numeric_at (c # cs) of Some m \<Rightarrow> Some m | None \<Rightarrow> re_search_numeric cs)"

definition convert_timestamp_to_datetime64 :: "string \<Rightarrow> error + string" where
  \<comment> \<open>\<open>re.match\<close> of \<open>^timestamp(?:\((\d+)\))?$\<close>, ignoring case, on the stripped input\<close>
  "convert_timestamp_to_datetime64 input_str =
     (let s = strip input_str; rest = drop 9 s in
      if lower (take 9 s) = ''timestamp'' \<and> rest = []
      then Inr ''DateTime64''
      else if lower (take 9 s) = ''timestamp'' \<and> 3 \<le> length rest \<and> hd rest = CHR ''(''
              \<and> last rest = CHR '')'' \<and> list_all is_digit (butlast (tl rest))
      then Inr (''DateTime64('' @ butlast (tl rest) @ '')'')
      else Inl (ValueError (''Invalid input string format: '' @ [CHR 0x27] @ input_str @ [CHR 0x27])))"

definition int_type :: "bool \<Rightarrow> string \<Rightarrow> string" where
  \<comment> \<open>\<open>if is_unsigned: return 'U...'\<close>, else the signed name\<close>
  "int_type is_unsigned signed_name = (if is_unsigned then ''U'' @ signed_name else signed_name)"

definition decimal_type :: "nat \<Rightarrow> nat \<Rightarrow> string" where
  \<comment> \<open>the f-string \<open>Decimal({precision}, {scale})\<close>\<close>
  "decimal_type precision scale = ''Decimal('' @ str_nat precision @ '', '' @ str_nat scale @ '')''"

definition convert_numeric :: "string \<Rightarrow> bool \<Rightarrow> error + string" where
  \<comment> \<open>the branch \<open>if mysql_type.startswith('numeric')\<close>\<close>
  "convert_numeric mysql_type is_unsigned =
     bind_err
       (if contains ''('' mysql_type \<and> contains '')'' mysql_type then
          (case re_search_numeric mysql_type of
             None \<Rightarrow> Inl (ValueError (''Invalid numeric type definition: '' @ mysql_type))
           | Some (g1, g2) \<Rightarrow> Inr (int_of_digits g1, int_of_digits g2))
        else Inr (10, 0))
       (\<lambda>(precision, scale).
          if scale = 0 then
            (if is_unsigned then
               (if precision \<le> 9 then Inr ''UInt32''
                else if precision \<le> 18 then Inr ''UInt64''
                else Inr (decimal_type precision scale))
             else
               (if precision \<le> 9 then Inr ''Int32''
                else if precision \<le> 18 then Inr ''Int64''
                else Inr (decimal_type precision scale)))
          else Inr (decimal_type precision scale))"

fun enum_items :: "nat \<Rightarrow> string list \<Rightarrow> string list" where
  \<comment> \<open>the loop over \<open>enumerate(enum_values)\<close>: \<open>'label' = idx+1\<close>\<close>
  "enum_items idx [] = []"
| "enum_items idx (value_name # rest) =
     ([CHR 0x27] @ lower value_name @ [CHR 0x27] @ '' = '' @ str_nat (idx + 1))
       # enum_items (idx + 1) rest"

definition convert_enum :: "string list \<Rightarrow> string" where
  "convert_enum enum_values =
     (let ch_enum_values = join '', '' (enum_items 0 enum_values) in
      if length enum_values \<le> 127 then ''Enum8('' @ ch_enum_values @ '')''
      else ''Enum16('' @ ch_enum_values @ '')'')"

definition convert_type ::
  "(string \<Rightarrow> error + string list) \<Rightarrow> converter \<Rightarrow> string \<Rightarrow> string \<Rightarrow> error + string" where
  \<comment> \<open>The first argument is \<open>parse_mysql_enum\<close>, which the converter imports from the
      \<open>enum\<close> package.\<close>
  "convert_type parse_mysql_enum self mysql_type parameters =
     (let is_unsigned = contains ''unsigned'' (lower parameters) in
      case types_mapping self mysql_type of
        Some result_type \<Rightarrow> Inr result_type
      | None \<Rightarrow>
      if mysql_type = ''point'' then Inr ''Tuple(x Float32, y Float32)''
      else if startswith mysql_type ''numeric'' then convert_numeric mysql_type is_unsigned
      else if mysql_type = ''int'' then Inr (int_type is_unsigned ''Int32'')
      else if mysql_type = ''integer'' then Inr (int_type is_unsigned ''Int32'')
      else if mysql_type = ''bigint'' then Inr (int_type is_unsigned ''Int64'')
      else if mysql_type = ''double'' then Inr ''Float64''
      else if mysql_type = ''real'' then Inr ''Float64''
      else if mysql_type = ''float'' then Inr ''Float32''
      else if mysql_type = ''date'' then Inr ''Date32''
      else if mysql_type = ''tinyint(1)'' then Inr ''Bool''
      else if mysql_type = ''bit(1)'' then Inr ''Bool''
      else if mysql_type = ''bool'' then Inr ''Bool''
      else if contains ''smallint'' mysql_type then Inr (int_type is_unsigned ''Int16'')
      else if contains ''tinyint'' mysql_type then Inr (int_type is_unsigned ''Int8'')
      else if contains ''mediumint'' mysql_type then Inr (int_type is_unsigned ''Int32'')
      else if contains ''datetime'' mysql_type
        then Inr (str_replace ''datetime'' ''DateTime64'' mysql_type)
      else if contains ''longtext'' mysql_type then Inr ''String''
      else if contains ''varchar'' mysql_type then Inr ''String''
      else if startswith mysql_type ''enum''
        then bind_err (parse_mysql_enum mysql_type) (\<lambda>enum_values. Inr (convert_enum enum_values))
      else if contains ''text'' mysql_type then Inr ''String''
      else if contains ''blob'' mysql_type then Inr ''String''
      else if contains ''char'' mysql_type then Inr ''String''
      else if contains ''json'' mysql_type then Inr ''String''
      else if contains ''decimal'' mysql_type then Inr ''Float64''
      else if contains ''float'' mysql_type then Inr ''Float32''
      else if contains ''double'' mysql_type then Inr ''Float64''
      else if contains ''bigint'' mysql_type then Inr (int_type is_unsigned ''Int64'')
      else if contains ''integer'' mysql_type \<or> contains ''int('' mysql_type
        then Inr (int_type is_unsigned ''Int32'')
      else if contains ''real'' mysql_type then Inr ''Float64''
      else if startswith mysql_type ''timestamp'' then convert_timestamp_to_datetime64 mysql_type
      else if startswith mysql_type ''time'' then Inr ''String''
      else if contains ''varbinary'' mysql_type then Inr ''String''
      else if contains ''binary'' mysql_type then Inr ''String''
      else if contains ''set('' mysql_type then Inr ''String''
      else Inl (Exception (''unknown mysql type '' @ [CHR 0x22] @ mysql_type @ [CHR 0x22])))"

definition convert_field_type ::
  "(string \<Rightarrow> error + string list) \<Rightarrow> converter \<Rightarrow> string \<Rightarrow> string \<Rightarrow> error + string" where
  "convert_field_type parse_mysql_enum self mysql_type0 mysql_parameters0 =
     (let mysql_type = lower mysql_type0;
          mysql_parameters = lower mysql_parameters0;
          not_null = contains ''not null'' mysql_parameters
      in bind_err (convert_type parse_mysql_enum self mysql_type mysql_parameters)
           (\<lambda>clickhouse_type.
              let not_null = (if contains ''Tuple'' clickhouse_type then True else not_null)
              in if \<not> not_null then Inr (''Nullable('' @ clickhouse_type @ '')'')
                 else Inr clickhouse_type))"

section \<open>convert_record\<close>

record table_field =
  name :: string
  field_type :: string
  parameters :: string
  additional_data :: "string list option"

record table_structure =
  fields_list :: "table_field list"
  primary_keys :: "string list"
  primary_key_ids :: "nat list"
  table_name :: string
  if_not_exists :: bool
  charset_python :: "string option"

text \<open>
  \<open>TableField\<close> and \<open>TableStructure\<close> are declared in the \<open>table_structure\<close> module;
  the records hold the attributes that the specification's data model lists and the
  converter reads (\<open>fields_list\<close> is the attribute \<open>fields\<close>). \<open>additional_data\<close> is the
  label list of an enum or set field.
\<close>

record externals =
  py_str :: "pyval \<Rightarrow> string"
  json_dumps :: "pyval \<Rightarrow> error + string"
  uuid_bytes :: "string \<Rightarrow> error + byte list"
  bytes_decode :: "string \<Rightarrow> byte list \<Rightarrow> error + string"
  convert_mysql_to_clickhouse_enum :: "pyval \<Rightarrow> string list option \<Rightarrow> string \<Rightarrow> error + pyval"

text \<open>
  The calls that leave the converter are parameters of the model: \<open>str(v)\<close>,
  \<open>json.dumps(convert_bytes(v))\<close>, \<open>uuid.UUID(s).bytes\<close>, \<open>b.decode(charset)\<close> and
  \<open>EnumConverter.convert_mysql_to_clickhouse_enum(value, enum_values, field_name)\<close>
  of the \<open>enum\<close> package.
\<close>

definition py_len :: "pyval \<Rightarrow> error + nat" where
  \<comment> \<open>\<open>len(v)\<close>\<close>
  "py_len v = (case v of
       PyStr s \<Rightarrow> Inr (length s)
     | PyBytes b \<Rightarrow> Inr (length b)
     | PySet xs \<Rightarrow> Inr (card (set xs))
     | PyTuple2 x y \<Rightarrow> Inr 2
     | PyInt i \<Rightarrow> Inl TypeError
     | PyNone \<Rightarrow> Inl TypeError)"

definition uuid_step :: "externals \<Rightarrow> string \<Rightarrow> pyval \<Rightarrow> error + pyval" where
  "uuid_step L clickhouse_field_type v =
     (if contains ''UUID'' clickhouse_field_type then
        bind_err (py_len v) (\<lambda>n.
          if n = 36 then
            (case v of
               PyBytes b \<Rightarrow>
                 bind_err (bytes_decode L ''utf-8'' b) (\<lambda>s.
                 bind_err (uuid_bytes L s) (\<lambda>u. Inr (PyBytes u)))
             | PyStr s \<Rightarrow> bind_err (uuid_bytes L s) (\<lambda>u. Inr (PyBytes u))
             | _ \<Rightarrow> Inl LibraryError)
          else Inr v)
      else Inr v)"

definition add_if_negative :: "bool \<Rightarrow> int \<Rightarrow> pyval \<Rightarrow> error + pyval" where
  \<comment> \<open>\<open>if marker and v < 0: v = modulus + v\<close>; the comparison is made only when the
      marker is there, and it is a \<open>TypeError\<close> on a value that is not a number\<close>
  "add_if_negative marker modulus v =
     (if \<not> marker then Inr v
      else (case v of
              PyInt i \<Rightarrow> Inr (if i < 0 then PyInt (modulus + i) else v)
            | _ \<Rightarrow> Inl TypeError))"

definition unsigned_correction :: "string \<Rightarrow> string \<Rightarrow> pyval \<Rightarrow> error + pyval" where
  \<comment> \<open>the five \<open>if\<close> statements on \<open>UInt16\<close>, \<open>UInt8\<close>, \<open>mediumint\<close>, \<open>UInt32\<close>, \<open>UInt64\<close>\<close>
  "unsigned_correction mysql_field_type clickhouse_field_type v0 =
     bind_err (add_if_negative (contains ''UInt16'' clickhouse_field_type) 65536 v0) (\<lambda>v1.
     bind_err (add_if_negative (contains ''UInt8'' clickhouse_field_type) 256 v1) (\<lambda>v2.
     bind_err (add_if_negative (contains ''mediumint'' (lower mysql_field_type)) 16777216 v2) (\<lambda>v3.
     bind_err (add_if_negative (contains ''UInt32'' clickhouse_field_type) 4294967296 v3) (\<lambda>v4.
     add_if_negative (contains ''UInt64'' clickhouse_field_type) 18446744073709551616 v4))))"

definition charset_step ::
  "externals \<Rightarrow> table_structure \<Rightarrow> string \<Rightarrow> string \<Rightarrow> pyval \<Rightarrow> error + pyval" where
  "charset_step L mysql_structure mysql_field_type clickhouse_field_type v =
     (if contains ''String'' clickhouse_field_type
         \<and> (contains ''text'' mysql_field_type \<or> contains ''char'' mysql_field_type) then
        (case v of
           PyBytes b \<Rightarrow>
             (let charset = (case charset_python mysql_structure of
                               None \<Rightarrow> ''utf-8''
                             | Some c \<Rightarrow> if c = [] then ''utf-8'' else c)
              in bind_err (bytes_decode L charset b) (\<lambda>s. Inr (PyStr s)))
         | _ \<Rightarrow> Inr v)
      else Inr v)"

fun bitmask_labels :: "int \<Rightarrow> nat \<Rightarrow> string list \<Rightarrow> string list" where
  \<comment> \<open>\<open>[val for idx, val in enumerate(set_values) if bit_mask & (1 << idx)]\<close>\<close>
  "bitmask_labels bit_mask idx [] = []"
| "bitmask_labels bit_mask idx (val # rest) =
     (if and bit_mask (push_bit idx 1) \<noteq> 0 then [val] else [])
       @ bitmask_labels bit_mask (idx + 1) rest"

definition set_step :: "table_structure \<Rightarrow> nat \<Rightarrow> string \<Rightarrow> pyval \<Rightarrow> error + pyval" where
  \<comment> \<open>the list of chosen labels, then \<open>','.join\<close>; a text value is joined character by
      character, a non-empty byte string or a pair cannot be joined\<close>
  "set_step mysql_structure idx mysql_field_type v =
     (if contains ''set('' mysql_field_type then
        bind_err (nth_or_raise (fields_list mysql_structure) idx) (\<lambda>f.
          let set_values = additional_data f in
          (case v of
             PyInt bit_mask \<Rightarrow>
               (case set_values of
                  None \<Rightarrow> Inl TypeError
                | Some vals \<Rightarrow> Inr (PyStr (join '','' (bitmask_labels bit_mask 0 vals))))
           | PySet xs \<Rightarrow>
               (case set_values of
                  None \<Rightarrow> Inl TypeError
                | Some vals \<Rightarrow> Inr (PyStr (join '','' (filter (\<lambda>v. v \<in> set xs) vals))))
           | PyStr s \<Rightarrow> Inr (PyStr (join '','' (map (\<lambda>c. [c]) s)))
           | PyBytes b \<Rightarrow> if b = [] then Inr (PyStr []) else Inl TypeError
           | _ \<Rightarrow> Inl TypeError))
      else Inr v)"

definition not_none_steps ::
  "externals \<Rightarrow> table_structure \<Rightarrow> nat \<Rightarrow> string \<Rightarrow> string \<Rightarrow> pyval \<Rightarrow> error + pyval" where
  \<comment> \<open>the body of \<open>if clickhouse_field_value is not None\<close>\<close>
  "not_none_steps L mysql_structure idx mysql_field_type clickhouse_field_type v =
     bind_err (uuid_step L clickhouse_field_type v) (\<lambda>v1.
     bind_err (unsigned_correction mysql_field_type clickhouse_field_type v1) (\<lambda>v2.
     bind_err (charset_step L mysql_structure mysql_field_type clickhouse_field_type v2) (\<lambda>v3.
     set_step mysql_structure idx mysql_field_type v3)))"

definition convert_field_value ::
  "externals \<Rightarrow> nat \<Rightarrow> string list \<Rightarrow> string list \<Rightarrow> table_structure \<Rightarrow> bool
     \<Rightarrow> nat \<Rightarrow> pyval \<Rightarrow> error + pyval" where
  \<comment> \<open>one turn of the loop of \<open>convert_record\<close>, for the value at position \<open>idx\<close> of a
      record of \<open>record_fields\<close> values\<close>
  "convert_field_value L record_fields mysql_field_types clickhouse_field_types mysql_structure
       only_primary idx mysql_field_value =
     (if only_primary \<and> idx \<notin> set (primary_key_ids mysql_structure) then Inr mysql_field_value
      else if \<not> idx < length mysql_field_types then
        Inl (SchemaMismatch idx (table_name mysql_structure) record_fields
               (length mysql_field_types) mysql_field_types)
      else
        let mysql_field_type = mysql_field_types ! idx in
        bind_err (nth_or_raise clickhouse_field_types idx) (\<lambda>clickhouse_field_type.
          let v1 = (if startswith mysql_field_type ''time''
                       \<and> contains ''String'' clickhouse_field_type
                    then PyStr (py_str L mysql_field_value) else mysql_field_value) in
          bind_err
            (if mysql_field_type = ''json'' \<and> contains ''String'' clickhouse_field_type then
               (case v1 of
                  PyStr s \<Rightarrow> Inr v1
                | _ \<Rightarrow> bind_err (json_dumps L v1) (\<lambda>s. Inr (PyStr s)))
             else Inr v1) (\<lambda>v2.
          bind_err
            (if v2 \<noteq> PyNone
             then not_none_steps L mysql_structure idx mysql_field_type clickhouse_field_type v2
             else Inr v2) (\<lambda>v3.
          bind_err
            (if startswith mysql_field_type ''point'' then parse_mysql_point v3 else Inr v3) (\<lambda>v4.
          if startswith mysql_field_type ''enum('' then
            bind_err (nth_or_raise (fields_list mysql_structure) idx) (\<lambda>f.
              convert_mysql_to_clickhouse_enum L v4 (additional_data f) (name f))
          else Inr v4)))))"

fun convert_record_loop ::
  "externals \<Rightarrow> nat \<Rightarrow> string list \<Rightarrow> string list \<Rightarrow> table_structure \<Rightarrow> bool
     \<Rightarrow> nat \<Rightarrow> pyval list \<Rightarrow> error + pyval list" where
  "convert_record_loop L n mts cts S only_primary idx [] = Inr []"
| "convert_record_loop L n mts cts S only_primary idx (v # vs) =
     bind_err (convert_field_value L n mts cts S only_primary idx v) (\<lambda>v'.
     bind_err (convert_record_loop L n mts cts S only_primary (Suc idx) vs) (\<lambda>r.
     Inr (v' # r)))"

definition convert_record ::
  "externals \<Rightarrow> pyval list \<Rightarrow> string list \<Rightarrow> string list \<Rightarrow> table_structure \<Rightarrow> bool
     \<Rightarrow> error + pyval list" where
  "convert_record L mysql_record mysql_field_types clickhouse_field_types mysql_structure only_primary =
     convert_record_loop L (length mysql_record) mysql_field_types clickhouse_field_types
       mysql_structure only_primary 0 mysql_record"

section \<open>convert_alter_query\<close>

definition strip_sql_name :: "string \<Rightarrow> string" where
  "strip_sql_name name0 =
     (let n1 = strip name0;
          n2 = (if startswith n1 [CHR 0x60] then tl n1 else n1);
          n3 = (if endswith n2 [CHR 0x60] then butlast n2 else n2)
      in n3)"

definition basic_validate_query :: "string \<Rightarrow> error + string" where
  "basic_validate_query mysql_query0 =
     (let q1 = strip mysql_query0;
          q2 = (if endswith q1 '';'' then butlast q1 else q1)
      in if contains '';'' q2 then Inl (Exception ''multi-query statement not supported'')
         else Inr q2)"

definition get_db_and_table_name ::
  "converter \<Rightarrow> string \<Rightarrow> string \<Rightarrow> error + (string \<times> string \<times> bool)" where
  "get_db_and_table_name self token db_name0 =
     bind_err
       (if contains ''.'' token then
          (case split_on (CHR ''.'') token of
             [d, t] \<Rightarrow> Inr (d, t)
           | _ \<Rightarrow> Inl (ValueError ''too many values to unpack (expected 2)''))
        else Inr (db_name0, token))
       (\<lambda>(db_name1, tbl_name1).
          let db_name = strip_sql_name db_name1;
              tbl_name = strip_sql_name tbl_name1
          in (case conv_db_replicator self of
                Some r \<Rightarrow>
                  (let db_name' = (if db_name = database r then target_database r else db_name);
                       matches_config = (is_database_matches r db_name' \<and> is_table_matches r tbl_name)
                   in Inr (db_name', tbl_name, matches_config))
              | None \<Rightarrow> Inr (db_name, tbl_name, True)))"

record 'st alter_handlers =
  convert_alter_table_add_column :: "string \<Rightarrow> string \<Rightarrow> string list \<Rightarrow> 'st \<Rightarrow> error + 'st"
  convert_alter_table_drop_column :: "string \<Rightarrow> string \<Rightarrow> string list \<Rightarrow> 'st \<Rightarrow> error + 'st"
  convert_alter_table_modify_column :: "string \<Rightarrow> string \<Rightarrow> string list \<Rightarrow> 'st \<Rightarrow> error + 'st"
  convert_alter_table_change_column :: "string \<Rightarrow> string \<Rightarrow> string list \<Rightarrow> 'st \<Rightarrow> error + 'st"

text \<open>
  The four column operations are parameters: the source at hand ends inside the first
  of them. Each takes the database name, the table name and the remaining tokens, and
  acts on the state \<open>'st\<close> of the replication session (the two mirrored schemas and the
  destination), or fails.
\<close>

datatype 'st alter_outcome = Excluded | Applied 'st

text \<open>
  \<open>convert_alter_query\<close> returns nothing on both paths; the outcome tells the early
  return for a table outside the configuration from a statement whose sub-operations
  were all processed.
\<close>

definition skipped_keywords :: "string list" where
  "skipped_keywords = [''constraint'', ''index'', ''foreign'', ''unique'']"

definition alter_subquery ::
  "'st alter_handlers \<Rightarrow> string \<Rightarrow> string \<Rightarrow> string \<Rightarrow> string \<Rightarrow> 'st \<Rightarrow> error + 'st" where
  \<comment> \<open>one turn of \<open>for subquery in subqueries\<close>\<close>
  "alter_subquery H db_name tbl_name mysql_query subquery0 st =
     (let subquery = strip subquery0;
          tokens0 = split_ws subquery
      in bind_err (nth_or_raise tokens0 0) (\<lambda>t0.
           let op_name = lower t0;
               tokens1 = tl tokens0
           in bind_err (nth_or_raise tokens1 0) (\<lambda>t1.
                let tokens = (if lower t1 = ''column'' then tl tokens1 else tokens1) in
                if op_name = ''add'' then
                  bind_err (nth_or_raise tokens 0) (\<lambda>t.
                    if lower t \<in> set skipped_keywords then Inr st
                    else convert_alter_table_add_column H db_name tbl_name tokens st)
                else if op_name = ''drop'' then
                  bind_err (nth_or_raise tokens 0) (\<lambda>t.
                    if lower t \<in> set skipped_keywords then Inr st
                    else convert_alter_table_drop_column H db_name tbl_name tokens st)
                else if op_name = ''modify'' then
                  convert_alter_table_modify_column H db_name tbl_name tokens st
                else if op_name = ''alter'' then Inr st
                else if op_name = ''auto_increment'' then Inr st
                else if op_name = ''change'' then
                  convert_alter_table_change_column H db_name tbl_name tokens st
                else Inl (Exception (''operation '' @ op_name @ '' not implement, query: ''
                            @ subquery @ '', full query: '' @ mysql_query)))))"

fun alter_loop ::
  "'st alter_handlers \<Rightarrow> string \<Rightarrow> string \<Rightarrow> string \<Rightarrow> string list \<Rightarrow> 'st \<Rightarrow> error + 'st" where
  "alter_loop H db_name tbl_name mysql_query [] st = Inr st"
| "alter_loop H db_name tbl_name mysql_query (subquery # rest) st =
     bind_err (alter_subquery H db_name tbl_name mysql_query subquery st)
       (\<lambda>st'. alter_loop H db_name tbl_name mysql_query rest st')"

definition convert_alter_query ::
  "converter \<Rightarrow> 'st alter_handlers \<Rightarrow> string \<Rightarrow> string \<Rightarrow> 'st \<Rightarrow> error + 'st alter_outcome" where
  "convert_alter_query self H mysql_query0 db_name0 st =
     bind_err (basic_validate_query mysql_query0) (\<lambda>mysql_query.
       let tokens = split_ws mysql_query in
       bind_err (nth_or_raise tokens 0) (\<lambda>t0.
         if lower t0 \<noteq> ''alter'' then Inl (Exception ''wrong query'')
         else bind_err (nth_or_raise tokens 1) (\<lambda>t1.
           if lower t1 \<noteq> ''table'' then Inl (Exception ''wrong query'')
           else bind_err (nth_or_raise tokens 2) (\<lambda>t2.
             bind_err (get_db_and_table_name self t2 db_name0)
               (\<lambda>(db_name, tbl_name, matches_config).
                  if \<not> matches_config then Inr Excluded
                  else
                    let subqueries = split_high_level (join '' '' (drop 3 tokens)) (CHR '','')
                    in bind_err (alter_loop H db_name tbl_name mysql_query subqueries st)
                         (\<lambda>st'. Inr (Applied st')))))))"

subsection \<open>The rules as the specification words them\<close>

definition le_nat :: "byte list \<Rightarrow> nat" where
  \<comment> \<open>the number whose base-256 digits are the bytes, least significant first\<close>
  "le_nat bs = foldr (\<lambda>b acc. unat b + 256 * acc) bs 0"

definition numeric_rule :: "nat \<Rightarrow> nat \<Rightarrow> bool \<Rightarrow> string" where
  \<comment> \<open>scale 0: the 32-bit type up to precision 9, the 64-bit type from 10 to 18;
      otherwise the decimal type with the same precision and scale\<close>
  "numeric_rule p s is_unsigned =
     (if s = 0 \<and> p \<le> 9 then (if is_unsigned then ''UInt32'' else ''Int32'')
      else if s = 0 \<and> 10 \<le> p \<and> p \<le> 18 then (if is_unsigned then ''UInt64'' else ''Int64'')
      else ''Decimal('' @ str_nat p @ '', '' @ str_nat s @ '')'')"

fun quoted_labels :: "bool \<Rightarrow> string \<Rightarrow> string \<Rightarrow> string list" where
  \<comment> \<open>the texts between successive pairs of single quotes, in order\<close>
  "quoted_labels inside cur [] = []"
| "quoted_labels inside cur (c # cs) =
     (if c = CHR 0x27 then (if inside then cur # quoted_labels False [] cs
                            else quoted_labels True [] cs)
      else if inside then quoted_labels True (cur @ [c]) cs
      else quoted_labels False cur cs)"

definition parse_mysql_enum_model :: "string \<Rightarrow> error + string list" where
  \<comment> \<open>Modelled from the spec: \<open>parse_mysql_enum\<close> of the \<open>enum\<close> package, which is not
      among the sources. The specification says that it parses a MySQL \<open>enum(...)\<close>
      type declaration into its ordered label list; here the labels are the
      single-quoted texts of the declaration. It serves as the parser in the concrete
      instances below; the theorems hold for every parser.\<close>
  "parse_mysql_enum_model t =
     (if startswith (lower t) ''enum('' then Inr (quoted_labels False [] t)
      else Inl (ValueError ''not an enum declaration''))"

definition nesting_depth :: "string \<Rightarrow> nat" where
  \<comment> \<open>the number of parentheses that are open after reading \<open>s\<close>: a closing
      parenthesis closes the innermost open one, and closes nothing when none is open\<close>
  "nesting_depth s =
     foldl (\<lambda>d c. if c = CHR ''('' then d + 1 else if c = CHR '')'' then d - 1 else d) 0 s"

definition top_level_points :: "char \<Rightarrow> string \<Rightarrow> nat list" where
  \<comment> \<open>the positions of the separator that are not nested inside parentheses\<close>
  "top_level_points token data =
     filter (\<lambda>i. data ! i = token \<and> nesting_depth (take i data) = 0) [0..<length data]"




subsection \<open>Concrete surroundings for instances\<close>

definition failing_externals :: externals where
  \<comment> \<open>an environment in which every library call fails (and \<open>str\<close> gives the empty
      text); the instances that use it do not depend on what the calls return\<close>
  "failing_externals =
     \<lparr> py_str = (\<lambda>v. []),
       json_dumps = (\<lambda>v. Inl LibraryError),
       uuid_bytes = (\<lambda>s. Inl LibraryError),
       bytes_decode = (\<lambda>c b. Inl LibraryError),
       convert_mysql_to_clickhouse_enum = (\<lambda>v labels n. Inl LibraryError) \<rparr>"

definition structure_of :: "table_field list \<Rightarrow> table_structure" where
  \<comment> \<open>a table \<open>t\<close> with the given fields and no primary key\<close>
  "structure_of fs =
     \<lparr> fields_list = fs, primary_keys = [], primary_key_ids = [], table_name = ''t'',
       if_not_exists = False, charset_python = None \<rparr>"

definition logging_handlers :: "string list list alter_handlers" where
  \<comment> \<open>column operations that only record that they were called, and with what\<close>
  "logging_handlers =
     \<lparr> convert_alter_table_add_column = (\<lambda>d t toks st. Inr (st @ [''add'' # d # t # toks])),
       convert_alter_table_drop_column = (\<lambda>d t toks st. Inr (st @ [''drop'' # d # t # toks])),
       convert_alter_table_modify_column = (\<lambda>d t toks st. Inr (st @ [''modify'' # d # t # toks])),
       convert_alter_table_change_column = (\<lambda>d t toks st. Inr (st @ [''change'' # d # t # toks])) \<rparr>"

section \<open>Properties of split_high_level\<close>

lemma raw_split_nonempty: "raw_split token level cur data \<noteq> []"
  by (induction data arbitrary: level cur) auto

lemma shl_loop_raw:
  "shl_loop data token results level cur =
     (results @ map strip (butlast (raw_split token level cur data)),
      last (raw_split token level cur data))"
proof (induction data arbitrary: results level cur)
  case Nil
  then show ?case by simp
next
  case (Cons c data)
  show ?case
  proof (cases "c = token \<and> level = 0")
    case True
    then show ?thesis
      using Cons.IH [of "results @ [strip cur]" level "[]"]
      by (simp add: raw_split_nonempty)
  next
    case False
    show ?thesis
      by (simp only: shl_loop.simps raw_split.simps if_not_P [OF False] Let_def Cons.IH)
  qed
qed

lemma split_high_level_raw:
  "split_high_level data token = map strip (drop_empty_last (raw_split token 0 [] data))"
proof -
  let ?S = "raw_split token 0 [] data"
  have ne: "?S \<noteq> []" by (rule raw_split_nonempty)
  have "map strip (butlast ?S) @ [strip (last ?S)] = map strip ?S"
    using ne by (metis append_butlast_last_id list.simps(8,9) map_append)
  then show ?thesis
    by (simp add: split_high_level_def shl_loop_raw drop_empty_last_def)
qed

lemma paren_depth_snoc:
  "paren_depth (pre @ [c]) =
     (if c = CHR '')'' then (if c = CHR ''('' then paren_depth pre + 1 else paren_depth pre) - 1
      else (if c = CHR ''('' then paren_depth pre + 1 else paren_depth pre))"
  by (simp add: paren_depth_def)


lemma raw_split_slices:
  assumes "token \<noteq> CHR ''(''" and "token \<noteq> CHR '')''" and "start \<le> length pre"
  shows "raw_split token (paren_depth pre) (drop start pre) data =
         slices (pre @ data) start
           (filter (\<lambda>i. (pre @ data) ! i = token \<and> paren_depth (take i (pre @ data)) = 0)
              [length pre..<length pre + length data])"
  using assms
proof (induction data arbitrary: pre start)
  case Nil
  then show ?case by simp
next
  case (Cons c data)
  define F where "F = pre @ c # data"
  define P where "P = (\<lambda>i. F ! i = token \<and> paren_depth (take i F) = 0)"
  define U where "U = [length (pre @ [c])..<length (pre @ [c]) + length data]"
  define R where "R = filter P U"
  have F': "(pre @ [c]) @ data = F" by (simp add: F_def)
  have upt: "[length pre..<length pre + length (c # data)] = length pre # U"
    using upt_conv_Cons [of "length pre" "length pre + length (c # data)"]
    by (simp add: U_def)
  have P0: "P (length pre) \<longleftrightarrow> c = token \<and> paren_depth pre = 0"
    by (simp add: P_def F_def)
  have ih: "start' \<le> length (pre @ [c]) \<Longrightarrow>
            raw_split token (paren_depth (pre @ [c])) (drop start' (pre @ [c])) data =
            slices F start' R" for start'
    using Cons.IH [of start' "pre @ [c]", OF Cons.prems(1,2)]
    unfolding F' R_def P_def U_def .
  have goal: "raw_split token (paren_depth pre) (drop start pre) (c # data) =
              slices F start (filter P (length pre # U))"
  proof (cases "c = token \<and> paren_depth pre = 0")
    case True
    have d: "paren_depth (pre @ [c]) = paren_depth pre"
      using True Cons.prems by (simp add: paren_depth_snoc)
    have "raw_split token (paren_depth pre) (drop start pre) (c # data) =
          drop start pre # raw_split token (paren_depth pre) [] data"
      using True by simp
    also have "raw_split token (paren_depth pre) [] data = slices F (Suc (length pre)) R"
      using ih [of "Suc (length pre)"] d by simp
    also have "drop start pre # slices F (Suc (length pre)) R =
               slices F start (length pre # R)"
      using Cons.prems(3) by (simp add: F_def)
    also have "length pre # R = filter P (length pre # U)"
      using True P0 by (simp add: R_def)
    finally show ?thesis .
  next
    case False
    have "raw_split token (paren_depth pre) (drop start pre) (c # data) =
          raw_split token (paren_depth (pre @ [c])) (drop start pre @ [c]) data"
      by (simp only: raw_split.simps if_not_P [OF False] paren_depth_snoc)
    also have "\<dots> = slices F start R"
      using ih [of start] Cons.prems(3) by simp
    also have "R = filter P (length pre # U)"
      using False P0 by (simp add: R_def)
    finally show ?thesis .
  qed
  show ?case
    unfolding upt using goal unfolding P_def F_def .
qed

lemma split_high_level_cut_points:
  assumes "token \<noteq> CHR ''(''" and "token \<noteq> CHR '')''"
  shows "split_high_level data token =
           map strip (drop_empty_last (slices data 0 (cut_points token data)))"
  using raw_split_slices [OF assms, of 0 "[]" data]
  by (simp add: split_high_level_raw cut_points_def paren_depth_def)

lemma split_high_level_cut_points_example:
  "split_high_level ''f(a, b), c ,(d,(e,f))'' (CHR '','') = [''f(a, b)'', ''c'', ''(d,(e,f))'']"
proof -
  have "cut_points (CHR '','') ''f(a, b), c ,(d,(e,f))'' = [7, 11]"
    by (simp add: cut_points_def paren_depth_def upt_rec)
  then show ?thesis
    using split_high_level_cut_points [of "CHR '',''" "''f(a, b), c ,(d,(e,f))''"]
    by (simp add: drop_empty_last_def strip_def lstrip_def rstrip_def is_space_def)
qed

lemma nesting_depth_snoc:
  "nesting_depth (s @ [c]) =
     (if c = CHR ''('' then nesting_depth s + 1
      else if c = CHR '')'' then nesting_depth s - 1 else nesting_depth s)"
  by (simp add: nesting_depth_def)

lemma nesting_depth_paren_depth:
  "(\<forall>n\<le>length s. 0 \<le> paren_depth (take n s)) \<Longrightarrow> int (nesting_depth s) = paren_depth s"
proof (induction s rule: rev_induct)
  case Nil
  then show ?case by (simp add: nesting_depth_def paren_depth_def)
next
  case (snoc c s)
  have "0 \<le> paren_depth (take n s)" if "n \<le> length s" for n
    using snoc.prems [rule_format, of n] that by simp
  then have ih: "int (nesting_depth s) = paren_depth s"
    using snoc.IH by simp
  have "0 \<le> paren_depth (s @ [c])"
    using snoc.prems [rule_format, of "Suc (length s)"] by simp
  then show ?case
    using ih by (auto simp: nesting_depth_snoc paren_depth_snoc)
qed

lemma cut_points_top_level:
  assumes "\<forall>n\<le>length data. 0 \<le> paren_depth (take n data)"
  shows "cut_points token data = top_level_points token data"
proof -
  have "paren_depth (take i data) = 0 \<longleftrightarrow> nesting_depth (take i data) = 0"
    if "i < length data" for i
  proof -
    have "0 \<le> paren_depth (take n (take i data))" if "n \<le> length (take i data)" for n
      using assms [rule_format, of "min n i"] that \<open>i < length data\<close> by simp
    then have "int (nesting_depth (take i data)) = paren_depth (take i data)"
      by (simp add: nesting_depth_paren_depth)
    then show ?thesis by linarith
  qed
  then show ?thesis
    unfolding cut_points_def top_level_points_def
    by (intro filter_cong) auto
qed

text \<open>
  On an input in which no closing parenthesis comes before its opening one, the counter
  of the loop is the nesting depth, and \<open>split_high_level\<close> cuts exactly at the separators
  that are not nested inside parentheses.
\<close>

lemma split_high_level_well_nested:
  assumes "token \<noteq> CHR ''(''" and "token \<noteq> CHR '')''"
    and "\<forall>n\<le>length data. 0 \<le> paren_depth (take n data)"
  shows "split_high_level data token =
           map strip (drop_empty_last (slices data 0 (top_level_points token data)))"
  using split_high_level_cut_points [OF assms(1,2)] cut_points_top_level [OF assms(3)]
  by simp

text \<open>
  Claim C7. \<open>split_high_level\<close> is to cut its input at the separators outside parentheses
  and never at a separator nested inside parentheses. The code does so only while its
  counter stays at or above zero: the counter is signed, so a closing parenthesis that
  nothing opened, as in the quoted comment \<open>':)'\<close>, takes it to -1, and from there a
  separator outside all parentheses is passed over while a separator inside the next
  pair of parentheses is at counter 0 and is cut. For the two sub-operations below the
  only separator outside parentheses is at position 29, between them; the code cuts at
  position 53, between the parameters of \<open>DECIMAL(5,2)\<close>, and returns the pieces
  \<open>... DECIMAL(5\<close> and \<open>2)\<close>. The same happens for \<open>)(a,b)\<close>. The example of the claim,
  which has no unmatched parenthesis, is split into its two sub-operations.
\<close>

theorem split_high_level_unmatched_closing:
  "split_high_level ''ADD COLUMN a INT COMMENT ':)', ADD COLUMN b DECIMAL(5,2)'' (CHR '','') =
     [''ADD COLUMN a INT COMMENT ':)', ADD COLUMN b DECIMAL(5'', ''2)'']
   \<and> top_level_points (CHR '','') ''ADD COLUMN a INT COMMENT ':)', ADD COLUMN b DECIMAL(5,2)'' = [29]
   \<and> cut_points (CHR '','') ''ADD COLUMN a INT COMMENT ':)', ADD COLUMN b DECIMAL(5,2)'' = [53]
   \<and> nesting_depth (take 53 ''ADD COLUMN a INT COMMENT ':)', ADD COLUMN b DECIMAL(5,2)'') = 1
   \<and> split_high_level '')(a,b)'' (CHR '','') = ['')(a'', ''b)'']
   \<and> top_level_points (CHR '','') '')(a,b)'' = []
   \<and> split_high_level ''ADD COLUMN a NUMERIC(5,2), ADD COLUMN b INT'' (CHR '','') =
        [''ADD COLUMN a NUMERIC(5,2)'', ''ADD COLUMN b INT'']"
proof -
  let ?X = "''ADD COLUMN a INT COMMENT ':)', ADD COLUMN b DECIMAL(5,2)''"
  have 1: "split_high_level ?X (CHR '','') =
     [''ADD COLUMN a INT COMMENT ':)', ADD COLUMN b DECIMAL(5'', ''2)'']"
    by (simp add: split_high_level_def strip_def lstrip_def rstrip_def is_space_def)
  have 2: "top_level_points (CHR '','') ?X = [29]"
    by (simp add: top_level_points_def nesting_depth_def upt_rec)
  have 3: "cut_points (CHR '','') ?X = [53]"
    by (simp add: cut_points_def paren_depth_def upt_rec)
  have 4: "nesting_depth (take 53 ?X) = 1"
    by (simp add: nesting_depth_def)
  have 5: "split_high_level '')(a,b)'' (CHR '','') = ['')(a'', ''b)'']"
    by (simp add: split_high_level_def strip_def lstrip_def rstrip_def is_space_def)
  have 6: "top_level_points (CHR '','') '')(a,b)'' = []"
    by (simp add: top_level_points_def nesting_depth_def upt_rec)
  have 7: "split_high_level ''ADD COLUMN a NUMERIC(5,2), ADD COLUMN b INT'' (CHR '','') =
        [''ADD COLUMN a NUMERIC(5,2)'', ''ADD COLUMN b INT'']"
    by (simp add: split_high_level_def strip_def lstrip_def rstrip_def is_space_def)
  show ?thesis
    using 1 2 3 4 5 6 7 by blast
qed

section \<open>Properties of parse_mysql_point\<close>

lemma be_nat_rev: "be_nat (rev bs) = le_nat bs"
  by (induction bs) (simp_all add: be_nat_def le_nat_def)

lemma parse_wkb_21:
  assumes "length ty = 4" "length xs = 8" "length ys = 8"
  shows "parse_wkb_bytes (flag # ty @ xs @ ys) =
        (if flag = 0 then
           (if be_nat ty = 1
            then Inr (PyTuple2 (CFloat (word_of_nat (be_nat xs))) (CFloat (word_of_nat (be_nat ys))))
            else Inl (ValueError ''Not a WKB POINT type''))
         else if flag = 1 then
           (if le_nat ty = 1
            then Inr (PyTuple2 (CFloat (word_of_nat (le_nat xs))) (CFloat (word_of_nat (le_nat ys))))
            else Inl (ValueError ''Not a WKB POINT type''))
         else Inl (ValueError ''Invalid byte order in WKB POINT''))"
  using assms
  by (simp add: parse_wkb_bytes_def py_slice_def unpack_uint_def unpack_double_def
        be_nat_rev Let_def)

lemma parse_wkb_25:
  assumes "length srid = 4" "length ty = 4" "length xs = 8" "length ys = 8"
  shows "parse_wkb_bytes (srid @ flag # ty @ xs @ ys) =
        (if flag = 0 then
           (if be_nat ty = 1
            then Inr (PyTuple2 (CFloat (word_of_nat (be_nat xs))) (CFloat (word_of_nat (be_nat ys))))
            else Inl (ValueError ''Not a WKB POINT type''))
         else if flag = 1 then
           (if le_nat ty = 1
            then Inr (PyTuple2 (CFloat (word_of_nat (le_nat xs))) (CFloat (word_of_nat (le_nat ys))))
            else Inl (ValueError ''Not a WKB POINT type''))
         else Inl (ValueError ''Invalid byte order in WKB POINT''))"
  using assms
  by (simp add: parse_wkb_bytes_def py_slice_def unpack_uint_def unpack_double_def
        be_nat_rev Let_def nth_append)

text \<open>
  Claim C6. \<open>parse_mysql_point\<close> returns (0, 0) for a null input. A payload whose
  length is neither 21 nor 25 fails. A payload of 21 bytes, or of 25 bytes whose first
  four are the SRID, is read as the byte-order flag, four bytes of geometry type and
  twice eight bytes of coordinates: flag 0 reads them big-endian, flag 1 little-endian,
  any other flag fails; a geometry type other than 1 fails; otherwise the result is the
  pair of the two doubles.
\<close>

theorem parse_mysql_point_cases:
  "parse_mysql_point PyNone = Inr (PyTuple2 (CInt 0) (CInt 0))
   \<and> (length binary \<noteq> 21 \<and> length binary \<noteq> 25 \<longrightarrow>
        parse_mysql_point (PyBytes binary) = Inl (ValueError ''Invalid binary length for WKB POINT''))
   \<and> ((srid = [] \<or> length srid = 4) \<and> length ty = 4 \<and> length xs = 8 \<and> length ys = 8 \<longrightarrow>
        parse_mysql_point (PyBytes (srid @ flag # ty @ xs @ ys)) =
          (if flag = 0 then
             (if be_nat ty = 1
              then Inr (PyTuple2 (CFloat (word_of_nat (be_nat xs))) (CFloat (word_of_nat (be_nat ys))))
              else Inl (ValueError ''Not a WKB POINT type''))
           else if flag = 1 then
             (if le_nat ty = 1
              then Inr (PyTuple2 (CFloat (word_of_nat (le_nat xs))) (CFloat (word_of_nat (le_nat ys))))
              else Inl (ValueError ''Not a WKB POINT type''))
           else Inl (ValueError ''Invalid byte order in WKB POINT'')))"
proof (intro conjI impI)
  show "parse_mysql_point PyNone = Inr (PyTuple2 (CInt 0) (CInt 0))" by simp
next
  assume "length binary \<noteq> 21 \<and> length binary \<noteq> 25"
  then show "parse_mysql_point (PyBytes binary) =
      Inl (ValueError ''Invalid binary length for WKB POINT'')"
    by (simp add: parse_wkb_bytes_def)
next
  assume a: "(srid = [] \<or> length srid = 4) \<and> length ty = 4 \<and> length xs = 8 \<and> length ys = 8"
  then consider "srid = []" | "length srid = 4" by blast
  then show "parse_mysql_point (PyBytes (srid @ flag # ty @ xs @ ys)) =
          (if flag = 0 then
             (if be_nat ty = 1
              then Inr (PyTuple2 (CFloat (word_of_nat (be_nat xs))) (CFloat (word_of_nat (be_nat ys))))
              else Inl (ValueError ''Not a WKB POINT type''))
           else if flag = 1 then
             (if le_nat ty = 1
              then Inr (PyTuple2 (CFloat (word_of_nat (le_nat xs))) (CFloat (word_of_nat (le_nat ys))))
              else Inl (ValueError ''Not a WKB POINT type''))
           else Inl (ValueError ''Invalid byte order in WKB POINT''))"
  proof cases
    case 1
    then show ?thesis using a parse_wkb_21 [of ty xs ys flag] by simp
  next
    case 2
    then show ?thesis using a parse_wkb_25 [of srid ty xs ys flag] by simp
  qed
qed

theorem parse_mysql_point_cases_witness:
  "parse_mysql_point (PyBytes [0, 0, 0, 0, 1, 0x3F, 0xF0, 0, 0, 0, 0, 0, 0, 0x40, 0, 0, 0, 0, 0, 0, 0])
     = Inr (PyTuple2 (CFloat 0x3FF0000000000000) (CFloat 0x4000000000000000))
   \<and> parse_mysql_point (PyBytes [0, 0, 0x10, 0xE6, 1, 1, 0, 0, 0, 0, 0, 0, 0, 0, 0, 0xF0, 0x3F,
                                  0, 0, 0, 0, 0, 0, 0, 0x40])
     = Inr (PyTuple2 (CFloat 0x3FF0000000000000) (CFloat 0x4000000000000000))
   \<and> parse_mysql_point (PyBytes [2, 0, 0, 0, 1, 0x3F, 0xF0, 0, 0, 0, 0, 0, 0, 0x40, 0, 0, 0, 0, 0, 0, 0])
     = Inl (ValueError ''Invalid byte order in WKB POINT'')
   \<and> parse_mysql_point (PyBytes [0, 1]) = Inl (ValueError ''Invalid binary length for WKB POINT'')"
  using
    parse_mysql_point_cases [of "[0, 1]" "[]" "[0, 0, 0, 1]" "[0x3F, 0xF0, 0, 0, 0, 0, 0, 0]"
       "[0x40, 0, 0, 0, 0, 0, 0, 0]" 0]
    parse_mysql_point_cases [of "[0, 1]" "[0, 0, 0x10, 0xE6]" "[1, 0, 0, 0]"
       "[0, 0, 0, 0, 0, 0, 0xF0, 0x3F]" "[0, 0, 0, 0, 0, 0, 0, 0x40]" 1]
    parse_mysql_point_cases [of "[0, 1]" "[]" "[0, 0, 0, 1]" "[0x3F, 0xF0, 0, 0, 0, 0, 0, 0]"
       "[0x40, 0, 0, 0, 0, 0, 0, 0]" 2]
  by (simp add: be_nat_def le_nat_def)


section \<open>Properties of convert_type and convert_field_type\<close>

lemma space_not_digit: "is_space c \<Longrightarrow> \<not> is_digit c"
  by (auto simp: is_space_def is_digit_def Let_def)

lemma comma_classes: "\<not> is_digit (CHR '','')" "\<not> is_space (CHR '','')" "\<not> is_digit (CHR '')'')"
  by (simp_all add: is_space_def is_digit_def)

lemma takeWhile_run:
  assumes "list_all P xs" and "rest = [] \<or> \<not> P (hd rest)"
  shows "takeWhile P (xs @ rest) = xs" and "dropWhile P (xs @ rest) = rest"
proof -
  have a: "\<And>x. x \<in> set xs \<Longrightarrow> P x" using assms(1) by (simp add: list_all_iff)
  have t: "takeWhile P rest = []" using assms(2) by (cases rest) auto
  have d: "dropWhile P rest = rest" using assms(2) by (cases rest) auto
  show "takeWhile P (xs @ rest) = xs" using a t by simp
  show "dropWhile P (xs @ rest) = rest" using a d by simp
qed

lemma re_numeric_at_form:
  assumes "pd \<noteq> []" "sd \<noteq> []" "list_all is_digit pd" "list_all is_digit sd"
    "list_all is_space w1" "list_all is_space w2"
  shows "re_numeric_at (''numeric('' @ pd @ w1 @ '','' @ w2 @ sd @ '')'' @ tail) = Some (pd, sd)"
proof -
  let ?r = "pd @ w1 @ '','' @ w2 @ sd @ '')'' @ tail"
  have h1: "w1 @ '','' @ w2 @ sd @ '')'' @ tail = [] \<or>
            \<not> is_digit (hd (w1 @ '','' @ w2 @ sd @ '')'' @ tail))"
    using assms(5) by (cases w1) (auto simp: comma_classes space_not_digit)
  have p: "takeWhile is_digit ?r = pd" "dropWhile is_digit ?r = w1 @ '','' @ w2 @ sd @ '')'' @ tail"
    using takeWhile_run [OF assms(3) h1] by simp_all
  have h2: "'','' @ w2 @ sd @ '')'' @ tail = [] \<or> \<not> is_space (hd ('','' @ w2 @ sd @ '')'' @ tail))"
    by (simp add: comma_classes)
  have s1: "dropWhile is_space (w1 @ '','' @ w2 @ sd @ '')'' @ tail) = '','' @ w2 @ sd @ '')'' @ tail"
    using takeWhile_run(2) [OF assms(5) h2] by simp
  have h3: "sd @ '')'' @ tail = [] \<or> \<not> is_space (hd (sd @ '')'' @ tail))"
    using assms(2,4) by (cases sd) (auto dest: space_not_digit)
  have s2: "dropWhile is_space (w2 @ sd @ '')'' @ tail) = sd @ '')'' @ tail"
    using takeWhile_run(2) [OF assms(6) h3] by simp
  have h4: "'')'' @ tail = [] \<or> \<not> is_digit (hd ('')'' @ tail))"
    by (simp add: comma_classes)
  have q: "takeWhile is_digit (sd @ '')'' @ tail) = sd" "dropWhile is_digit (sd @ '')'' @ tail) = '')'' @ tail"
    using takeWhile_run [OF assms(4) h4] by simp_all
  have sw: "startswith (''numeric('' @ ?r) ''numeric(''" by simp
  have dr: "drop 8 (''numeric('' @ ?r) = ?r" by simp
  show ?thesis
    unfolding re_numeric_at_def
    using assms(1,2) p s1 s2 q
    by (simp add: Let_def)
qed

lemma re_search_numeric_at:
  "re_numeric_at s = Some m \<Longrightarrow> re_search_numeric s = Some m"
  by (cases s) (simp_all add: re_numeric_at_def)

lemma contains_paren_form:
  "contains ''('' (''numeric('' @ r)" "contains '')'' (''numeric('' @ pd @ w1 @ '','' @ w2 @ sd @ '')'')"
proof -
  show "contains ''('' (''numeric('' @ r)" by simp
  have "contains '')'' (xs @ '')'')" for xs
    by (induction xs) auto
  from this [of "''numeric('' @ pd @ w1 @ '','' @ w2 @ sd"]
  show "contains '')'' (''numeric('' @ pd @ w1 @ '','' @ w2 @ sd @ '')'')" by simp
qed

lemma numeric_rule_eq:
  "(if s = 0 then
      (if u then (if p \<le> 9 then Inr ''UInt32'' else if p \<le> 18 then Inr ''UInt64''
                  else Inr (decimal_type p s))
       else (if p \<le> 9 then Inr ''Int32'' else if p \<le> 18 then Inr ''Int64''
             else Inr (decimal_type p s)))
    else Inr (decimal_type p s)) = (Inr (numeric_rule p s u) :: error + string)"
  by (auto simp: numeric_rule_def decimal_type_def)

text \<open>
  Claim C1. For a type string \<open>numeric(p,s)\<close> (digits, optional whitespace around the
  comma) that the override table does not map, \<open>convert_type\<close> returns the 32-bit
  integer type when s = 0 and p \<le> 9, the 64-bit one when s = 0 and 10 \<le> p \<le> 18, each
  unsigned exactly if the lower-cased parameters contain \<open>unsigned\<close>, and otherwise
  \<open>Decimal(p, s)\<close>; the bare \<open>numeric\<close> is treated as p = 10, s = 0; and a type
  that starts with \<open>numeric\<close>, has both parentheses and no match of the pattern fails
  with a \<open>ValueError\<close>.
\<close>

theorem convert_type_numeric:
  assumes "types_mapping self mysql_type = None"
  shows
  "(pd \<noteq> [] \<and> sd \<noteq> [] \<and> list_all is_digit pd \<and> list_all is_digit sd
      \<and> list_all is_space w1 \<and> list_all is_space w2
      \<and> mysql_type = ''numeric('' @ pd @ w1 @ '','' @ w2 @ sd @ '')'' \<longrightarrow>
      convert_type parse_mysql_enum self mysql_type params =
        Inr (numeric_rule (int_of_digits pd) (int_of_digits sd)
               (contains ''unsigned'' (lower params))))
   \<and> (mysql_type = ''numeric'' \<longrightarrow>
      convert_type parse_mysql_enum self mysql_type params =
        Inr (numeric_rule 10 0 (contains ''unsigned'' (lower params))))
   \<and> (startswith mysql_type ''numeric'' \<and> contains ''('' mysql_type \<and> contains '')'' mysql_type
      \<and> re_search_numeric mysql_type = None \<longrightarrow>
      convert_type parse_mysql_enum self mysql_type params =
        Inl (ValueError (''Invalid numeric type definition: '' @ mysql_type)))"
proof (intro conjI impI)
  assume a: "pd \<noteq> [] \<and> sd \<noteq> [] \<and> list_all is_digit pd \<and> list_all is_digit sd
      \<and> list_all is_space w1 \<and> list_all is_space w2
      \<and> mysql_type = ''numeric('' @ pd @ w1 @ '','' @ w2 @ sd @ '')''"
  then have m: "re_numeric_at mysql_type = Some (pd, sd)"
    using re_numeric_at_form [of pd sd w1 w2 "[]"] by simp
  have s: "re_search_numeric mysql_type = Some (pd, sd)"
    using m by (rule re_search_numeric_at)
  have c: "contains ''('' mysql_type" "contains '')'' mysql_type"
    using a contains_paren_form(1) [of "pd @ w1 @ '','' @ w2 @ sd @ '')''"]
      contains_paren_form(2) [of pd w1 w2 sd] by simp_all
  have sw: "startswith mysql_type ''numeric''" "mysql_type \<noteq> ''point''" using a by auto
  show "convert_type parse_mysql_enum self mysql_type params =
        Inr (numeric_rule (int_of_digits pd) (int_of_digits sd)
               (contains ''unsigned'' (lower params)))"
    using assms sw c s
    by (simp add: convert_type_def convert_numeric_def bind_err_def Let_def numeric_rule_eq
          del: contains.simps startswith.simps)
next
  assume a: "mysql_type = ''numeric''"
  show "convert_type parse_mysql_enum self mysql_type params =
        Inr (numeric_rule 10 0 (contains ''unsigned'' (lower params)))"
    using assms unfolding a
    by (simp add: convert_type_def convert_numeric_def bind_err_def Let_def numeric_rule_def)
next
  assume a: "startswith mysql_type ''numeric'' \<and> contains ''('' mysql_type \<and> contains '')'' mysql_type
      \<and> re_search_numeric mysql_type = None"
  then have "mysql_type \<noteq> ''point''" by auto
  then show "convert_type parse_mysql_enum self mysql_type params =
        Inl (ValueError (''Invalid numeric type definition: '' @ mysql_type))"
    using assms a
    by (simp add: convert_type_def convert_numeric_def bind_err_def Let_def
          del: contains.simps startswith.simps)
qed

theorem convert_type_numeric_witness:
  "types_mapping (init_converter None) ''numeric(12, 0)'' = None
   \<and> convert_type parse_mysql_enum_model (init_converter None) ''numeric(12, 0)'' ''UNSIGNED'' = Inr ''UInt64''
   \<and> types_mapping (init_converter None) ''numeric(5,2)'' = None
   \<and> convert_type parse_mysql_enum_model (init_converter None) ''numeric(5,2)'' '''' = Inr ''Decimal(5, 2)''
   \<and> types_mapping (init_converter None) ''numeric'' = None
   \<and> convert_type parse_mysql_enum_model (init_converter None) ''numeric'' '''' = Inr ''Int64''
   \<and> types_mapping (init_converter None) ''numeric(5)'' = None
   \<and> convert_type parse_mysql_enum_model (init_converter None) ''numeric(5)'' '''' =
       Inl (ValueError ''Invalid numeric type definition: numeric(5)'')"
proof -
  have m: "\<And>t. types_mapping (init_converter None) t = None"
    by (simp add: init_converter_def)
  have u: "contains ''unsigned'' (lower ''UNSIGNED'')" "\<not> contains ''unsigned'' (lower '''')"
    by (simp_all add: lower_def lower_char_def char_of_def bit_0)
  have r: "numeric_rule (int_of_digits ''12'') (int_of_digits ''0'') True = ''UInt64''"
    "numeric_rule (int_of_digits ''5'') (int_of_digits ''2'') False = ''Decimal(5, 2)''"
    "numeric_rule 10 0 False = ''Int64''"
    by (simp_all add: numeric_rule_def int_of_digits_def str_nat.simps char_of_def bit_0)
  have n: "re_search_numeric ''numeric(5)'' = None"
    by (simp add: re_numeric_at_def is_digit_def is_space_def Let_def)
  show ?thesis
    using
      convert_type_numeric [OF m, of "''12''" "''0''" "[]" "'' ''" "''numeric(12, 0)''"
        parse_mysql_enum_model "''UNSIGNED''"]
      convert_type_numeric [OF m, of "''5''" "''2''" "[]" "[]" "''numeric(5,2)''"
        parse_mysql_enum_model "''''"]
      convert_type_numeric [OF m, of "''5''" "''2''" "[]" "[]" "''numeric''"
        parse_mysql_enum_model "''''"]
      convert_type_numeric [OF m, of "''5''" "''2''" "[]" "[]" "''numeric(5)''"
        parse_mysql_enum_model "''''"]
      m u r n
    by (simp add: is_digit_def is_space_def)
qed


text \<open>
  Claim C4. \<open>convert_field_type\<close> maps the lower-cased type and parameters with
  \<open>convert_type\<close>; it returns the mapped type wrapped in \<open>Nullable(...)\<close> if and only
  if the lower-cased parameters do not contain \<open>not null\<close> and the mapped type does not
  contain \<open>Tuple\<close>, and the mapped type itself otherwise; a failure of the mapping is
  passed on. Without overrides, \<open>int\<close> with \<open>unsigned\<close> gives
  \<open>Nullable(UInt32)\<close>, and a point column is never wrapped.
\<close>

theorem convert_field_type_nullable:
  "(convert_type parse_mysql_enum self (lower mysql_type) (lower mysql_parameters) = Inr ch \<longrightarrow>
      convert_field_type parse_mysql_enum self mysql_type mysql_parameters =
        Inr (if contains ''not null'' (lower mysql_parameters) \<or> contains ''Tuple'' ch then ch
             else ''Nullable('' @ ch @ '')'')
      \<and> (convert_field_type parse_mysql_enum self mysql_type mysql_parameters =
            Inr (''Nullable('' @ ch @ '')'')
          \<longleftrightarrow> \<not> contains ''not null'' (lower mysql_parameters) \<and> \<not> contains ''Tuple'' ch))
   \<and> (convert_type parse_mysql_enum self (lower mysql_type) (lower mysql_parameters) = Inl e \<longrightarrow>
      convert_field_type parse_mysql_enum self mysql_type mysql_parameters = Inl e)
   \<and> convert_field_type parse_mysql_enum (init_converter None) ''int'' ''unsigned'' =
        Inr ''Nullable(UInt32)''
   \<and> convert_field_type parse_mysql_enum (init_converter None) ''POINT'' mysql_parameters =
        Inr ''Tuple(x Float32, y Float32)''"
proof -
  have ne: "''Nullable('' @ ch @ '')'' \<noteq> ch"
  proof
    assume "''Nullable('' @ ch @ '')'' = ch"
    then have "length (''Nullable('' @ ch @ '')'') = length ch" by simp
    then show False by simp
  qed
  have lo: "lower ''int'' = ''int''" "lower ''unsigned'' = ''unsigned''" "lower ''POINT'' = ''point''"
    by (simp_all add: lower_def lower_char_def char_of_def bit_0)
  have ex: "convert_type parse_mysql_enum (init_converter None) ''int'' ''unsigned'' = Inr ''UInt32''"
    by (simp add: convert_type_def init_converter_def int_type_def lo Let_def)
  have pt: "convert_type parse_mysql_enum (init_converter None) ''point'' ps =
              Inr ''Tuple(x Float32, y Float32)''" for ps
    by (simp add: convert_type_def init_converter_def Let_def)
  have tup: "contains ''Tuple'' ''Tuple(x Float32, y Float32)''" by simp
  show ?thesis
    using ne
    by (simp add: convert_field_type_def bind_err_def Let_def lo ex pt
          del: contains.simps startswith.simps)
      (simp add: tup)
qed

theorem convert_field_type_nullable_witness:
  "convert_type parse_mysql_enum_model (init_converter None) (lower ''BigInt'') (lower ''NOT NULL'')
     = Inr ''Int64''
   \<and> convert_field_type parse_mysql_enum_model (init_converter None) ''BigInt'' ''NOT NULL'' = Inr ''Int64''
   \<and> convert_type parse_mysql_enum_model (init_converter None) (lower ''BigInt'') (lower ''Unsigned'')
     = Inr ''UInt64''
   \<and> convert_field_type parse_mysql_enum_model (init_converter None) ''BigInt'' ''Unsigned''
     = Inr ''Nullable(UInt64)''
   \<and> convert_type parse_mysql_enum_model (init_converter None) (lower ''geometry'') (lower '''')
     = Inl (Exception (''unknown mysql type '' @ [CHR 0x22] @ ''geometry'' @ [CHR 0x22]))
   \<and> convert_field_type parse_mysql_enum_model (init_converter None) ''geometry'' ''''
     = Inl (Exception (''unknown mysql type '' @ [CHR 0x22] @ ''geometry'' @ [CHR 0x22]))"
proof -
  have lo: "lower ''BigInt'' = ''bigint''" "lower ''NOT NULL'' = ''not null''"
    "lower ''Unsigned'' = ''unsigned''" "lower ''geometry'' = ''geometry''" "lower '''' = ''''"
    by (simp_all add: lower_def lower_char_def char_of_def bit_0)
  have c1: "convert_type parse_mysql_enum_model (init_converter None) ''bigint'' ''not null''
     = Inr ''Int64''"
    by (simp add: convert_type_def init_converter_def int_type_def Let_def lower_def lower_char_def)
  have c2: "convert_type parse_mysql_enum_model (init_converter None) ''bigint'' ''unsigned''
     = Inr ''UInt64''"
    by (simp add: convert_type_def init_converter_def int_type_def Let_def lower_def lower_char_def)
  have c3: "convert_type parse_mysql_enum_model (init_converter None) ''geometry'' ''''
     = Inl (Exception (''unknown mysql type '' @ [CHR 0x22] @ ''geometry'' @ [CHR 0x22]))"
    by (simp add: convert_type_def init_converter_def int_type_def Let_def lower_def lower_char_def)
  show ?thesis
    using
      convert_field_type_nullable [of parse_mysql_enum_model "init_converter None" "''BigInt''"
        "''NOT NULL''" "''Int64''" "Exception []"]
      convert_field_type_nullable [of parse_mysql_enum_model "init_converter None" "''BigInt''"
        "''Unsigned''" "''UInt64''" "Exception []"]
      convert_field_type_nullable [of parse_mysql_enum_model "init_converter None" "''geometry''"
        "''''" "''Int64''"
        "Exception (''unknown mysql type '' @ [CHR 0x22] @ ''geometry'' @ [CHR 0x22])"]
    by (simp add: lo c1 c2 c3)
qed


lemma convert_enum_example:
  "convert_enum [''red'', ''green'', ''black''] = ''Enum8('red' = 1, 'green' = 2, 'black' = 3)''"
  by (simp add: convert_enum_def lower_def lower_char_def str_nat.simps char_of_def bit_0)

text \<open>
  Claim C5. The enum branch turns the labels, lower-cased and in declaration order, into
  \<open>Enum8\<close> or \<open>Enum16\<close> items numbered from 1. The branch is reached only after the
  substring tests for \<open>smallint\<close>, \<open>tinyint\<close>, \<open>mediumint\<close>, \<open>datetime\<close>,
  \<open>longtext\<close> and \<open>varchar\<close>, which look at the whole declaration, labels included:
  the declaration \<open>enum('date','datetime')\<close> is answered by the \<open>datetime\<close> rule
  and does not become \<open>Enum8('date' = 1, 'datetime' = 2)\<close>.
\<close>

theorem convert_type_enum_intercepted:
  "convert_type parse_mysql_enum (init_converter None) ''enum('date','datetime')'' '''' =
     Inr ''enum('date','DateTime64')''
   \<and> convert_field_type parse_mysql_enum (init_converter None) ''enum('date','datetime')'' ''not null'' =
     Inr ''enum('date','DateTime64')''
   \<and> convert_enum [''date'', ''datetime''] = ''Enum8('date' = 1, 'datetime' = 2)''"
proof -
  have lo: "lower ''enum('date','datetime')'' = ''enum('date','datetime')''"
    "lower ''not null'' = ''not null''" "lower '''' = ''''"
    by (simp_all add: lower_def lower_char_def)
  have r: "str_replace ''datetime'' ''DateTime64'' ''enum('date','datetime')'' = ''enum('date','DateTime64')''"
    by (simp add: str_replace.simps)
  have c: "convert_type parse_mysql_enum (init_converter None) ''enum('date','datetime')'' ps =
     Inr ''enum('date','DateTime64')''" for ps
    by (simp add: convert_type_def init_converter_def Let_def r)
  have e: "convert_enum [''date'', ''datetime''] = ''Enum8('date' = 1, 'datetime' = 2)''"
    by (simp add: convert_enum_def lower_def lower_char_def str_nat.simps char_of_def bit_0)
  show ?thesis
    by (simp add: c e convert_field_type_def bind_err_def lo Let_def)
qed


section \<open>Properties of convert_record\<close>

lemma add_if_negative_nonneg: "0 \<le> i \<Longrightarrow> add_if_negative m k (PyInt i) = Inr (PyInt i)"
  by (simp add: add_if_negative_def)

lemma add_if_negative_int:
  "add_if_negative m k (PyInt i) = Inr (PyInt (if m \<and> i < 0 then k + i else i))"
  by (simp add: add_if_negative_def)

lemma bind_err_Inr: "bind_err (Inr x) f = f x"
  by (simp add: bind_err_def)

lemma bind_err_Inl: "bind_err (Inl e) f = Inl e"
  by (simp add: bind_err_def)

lemma unsigned_correction_int:
  "unsigned_correction mt ct (PyInt i) =
     Inr (PyInt
       (let v1 = (if contains ''UInt16'' ct \<and> i < 0 then 65536 + i else i);
            v2 = (if contains ''UInt8'' ct \<and> v1 < 0 then 256 + v1 else v1);
            v3 = (if contains ''mediumint'' (lower mt) \<and> v2 < 0 then 16777216 + v2 else v2);
            v4 = (if contains ''UInt32'' ct \<and> v3 < 0 then 4294967296 + v3 else v3)
        in (if contains ''UInt64'' ct \<and> v4 < 0 then 18446744073709551616 + v4 else v4)))"
  by (simp only: unsigned_correction_def add_if_negative_int bind_err_Inr Let_def)

lemma plain_steps_int:
  assumes "\<not> contains ''UUID'' ct" "\<not> contains ''set('' mt"
  shows "not_none_steps L S idx mt ct (PyInt i) = unsigned_correction mt ct (PyInt i)"
  using assms
  by (simp add: not_none_steps_def uuid_step_def unsigned_correction_int bind_err_Inr
        charset_step_def set_step_def Let_def del: contains.simps)

lemma convert_field_value_int:
  assumes "idx < length mts" "idx < length cts"
    "\<not> startswith (mts ! idx) ''time''" "mts ! idx \<noteq> ''json''"
    "\<not> startswith (mts ! idx) ''point''" "\<not> startswith (mts ! idx) ''enum(''"
    "\<not> contains ''set('' (mts ! idx)" "\<not> contains ''UUID'' (cts ! idx)"
    "\<not> (only_primary \<and> idx \<notin> set (primary_key_ids S))"
  shows "convert_field_value L n mts cts S only_primary idx (PyInt i) =
         unsigned_correction (mts ! idx) (cts ! idx) (PyInt i)"
proof -
  obtain j where j: "unsigned_correction (mts ! idx) (cts ! idx) (PyInt i) = Inr (PyInt j)"
    using unsigned_correction_int by blast
  show ?thesis
    unfolding convert_field_value_def
    apply (simp only: if_not_P [OF assms(9)])
    using assms(1-8)
    apply (simp add: nth_or_raise_def bind_err_Inr Let_def
          plain_steps_int j del: contains.simps startswith.simps)
    done
qed

text \<open>
  Claim C9. The unsigned-width correction leaves a non-negative integer as it is,
  whatever the MySQL type and the destination type; and so a non-negative integer in a
  column that no other step of the pipeline applies to comes out of \<open>convert_record\<close>
  unchanged.
\<close>

theorem unsigned_correction_nonneg:
  "(0 \<le> i \<longrightarrow> unsigned_correction mysql_field_type clickhouse_field_type (PyInt i) = Inr (PyInt i))
   \<and> (0 \<le> i \<and> idx < length mts \<and> idx < length cts
        \<and> \<not> startswith (mts ! idx) ''time'' \<and> mts ! idx \<noteq> ''json''
        \<and> \<not> startswith (mts ! idx) ''point'' \<and> \<not> startswith (mts ! idx) ''enum(''
        \<and> \<not> contains ''set('' (mts ! idx) \<and> \<not> contains ''UUID'' (cts ! idx) \<longrightarrow>
      convert_field_value L n mts cts S False idx (PyInt i) = Inr (PyInt i))"
proof -
  have a: "unsigned_correction mt ct (PyInt i) = Inr (PyInt i)" if "0 \<le> i" for mt ct
    using that by (simp add: unsigned_correction_int)
  show ?thesis
    using a convert_field_value_int [of idx mts cts False S L n i] by auto
qed

theorem unsigned_correction_nonneg_witness:
  "(0::int) \<le> 65535
   \<and> unsigned_correction ''smallint'' ''UInt16'' (PyInt 65535) = Inr (PyInt 65535)
   \<and> convert_field_value failing_externals 2 [''int'', ''bigint''] [''UInt32'', ''Nullable(UInt64)'']
        (structure_of []) False 1 (PyInt 7) = Inr (PyInt 7)"
  using unsigned_correction_nonneg [of 65535 "''smallint''" "''UInt16''" 0 "[]" "[]"
          failing_externals 0 "structure_of []"]
        unsigned_correction_nonneg [of 7 "''smallint''" "''UInt16''" 1 "[''int'', ''bigint'']"
          "[''UInt32'', ''Nullable(UInt64)'']" failing_externals 2 "structure_of []"]
  by simp


lemma lower_ascii_examples:
  "lower ''smallint'' = ''smallint''" "lower ''mediumint'' = ''mediumint''"
  "lower ''int'' = ''int''" "lower ''MediumInt'' = ''mediumint''"
  by (simp_all add: lower_def lower_char_def char_of_def bit_0)

text \<open>
  Claim C2, as stated, fails: a negative value of a \<open>mediumint\<close> column whose destination
  is \<open>UInt32\<close> gets 2^24 added and is then no longer negative, so the modulus 2^32 of its
  destination width is not added.
\<close>

theorem unsigned_correction_mediumint_counterexample:
  "unsigned_correction ''mediumint'' ''UInt32'' (PyInt (- 1)) = Inr (PyInt 16777215)
   \<and> unsigned_correction ''mediumint'' ''UInt32'' (PyInt (- 1)) \<noteq> Inr (PyInt (- 1 + 4294967296))
   \<and> unsigned_correction ''mediumint'' ''UInt32'' (PyInt (- 1))
        \<noteq> Inr (PyInt (- 1 + 4294967296 + 16777216))
   \<and> convert_record failing_externals [PyInt (- 1)] [''mediumint''] [''UInt32'']
        (structure_of [\<lparr> name = ''m'', field_type = ''mediumint'', parameters = ''unsigned'',
                          additional_data = None \<rparr>]) False
      = Inr [PyInt 16777215]"
proof -
  have u: "unsigned_correction ''mediumint'' ''UInt32'' (PyInt (- 1)) = Inr (PyInt 16777215)"
    by (simp add: unsigned_correction_int lower_ascii_examples)
  have f: "convert_field_value failing_externals (Suc 0) [''mediumint''] [''UInt32'']
        (structure_of [\<lparr> name = ''m'', field_type = ''mediumint'', parameters = ''unsigned'',
                          additional_data = None \<rparr>]) False 0 (PyInt (- 1)) = Inr (PyInt 16777215)"
    using convert_field_value_int [of 0 "[''mediumint'']" "[''UInt32'']" False _ failing_externals "Suc 0" "- 1"]
    by (simp add: u)
  show ?thesis
    by (simp add: u f convert_record_def bind_err_Inr)
qed

text \<open>
  Claim C2, amended. The corrections for \<open>UInt16\<close>, \<open>UInt8\<close>, \<open>mediumint\<close>, \<open>UInt32\<close>
  and \<open>UInt64\<close> are applied in this order, each adding its modulus (2^16, 2^8, 2^24, 2^32,
  2^64) only if the value is negative when its turn comes. Hence a negative value whose
  destination names exactly one unsigned width, and whose MySQL type does not contain
  \<open>mediumint\<close>, gets that width's modulus; a negative value not below -2^24 of a
  \<open>mediumint\<close> column whose destination names neither \<open>UInt16\<close> nor \<open>UInt8\<close> gets 2^24
  and nothing else; and -1 in a \<open>smallint\<close> column mapped to \<open>UInt16\<close> transcodes to 65535.
\<close>

theorem unsigned_correction_sequential:
  "unsigned_correction mt ct (PyInt i) =
     Inr (PyInt
       (let v1 = (if contains ''UInt16'' ct \<and> i < 0 then 65536 + i else i);
            v2 = (if contains ''UInt8'' ct \<and> v1 < 0 then 256 + v1 else v1);
            v3 = (if contains ''mediumint'' (lower mt) \<and> v2 < 0 then 16777216 + v2 else v2);
            v4 = (if contains ''UInt32'' ct \<and> v3 < 0 then 4294967296 + v3 else v3)
        in (if contains ''UInt64'' ct \<and> v4 < 0 then 18446744073709551616 + v4 else v4)))
   \<and> (i < 0 \<and> \<not> contains ''mediumint'' (lower mt) \<longrightarrow>
        (contains ''UInt8'' ct \<and> \<not> contains ''UInt16'' ct \<and> \<not> contains ''UInt32'' ct
           \<and> \<not> contains ''UInt64'' ct \<longrightarrow>
           unsigned_correction mt ct (PyInt i) = Inr (PyInt (i + 2 ^ 8)))
      \<and> (contains ''UInt16'' ct \<and> \<not> contains ''UInt8'' ct \<and> \<not> contains ''UInt32'' ct
           \<and> \<not> contains ''UInt64'' ct \<longrightarrow>
           unsigned_correction mt ct (PyInt i) = Inr (PyInt (i + 2 ^ 16)))
      \<and> (contains ''UInt32'' ct \<and> \<not> contains ''UInt8'' ct \<and> \<not> contains ''UInt16'' ct
           \<and> \<not> contains ''UInt64'' ct \<longrightarrow>
           unsigned_correction mt ct (PyInt i) = Inr (PyInt (i + 2 ^ 32)))
      \<and> (contains ''UInt64'' ct \<and> \<not> contains ''UInt8'' ct \<and> \<not> contains ''UInt16'' ct
           \<and> \<not> contains ''UInt32'' ct \<longrightarrow>
           unsigned_correction mt ct (PyInt i) = Inr (PyInt (i + 2 ^ 64))))
   \<and> (- (2 ^ 24) \<le> i \<and> i < 0 \<and> contains ''mediumint'' (lower mt)
        \<and> \<not> contains ''UInt16'' ct \<and> \<not> contains ''UInt8'' ct \<longrightarrow>
        unsigned_correction mt ct (PyInt i) = Inr (PyInt (i + 2 ^ 24)))
   \<and> convert_record L [PyInt (- 1)] [''smallint''] [''UInt16''] S False = Inr [PyInt 65535]"
proof -
  have ex: "convert_field_value L (Suc 0) [''smallint''] [''UInt16''] S False 0 (PyInt (- 1)) =
            Inr (PyInt 65535)"
    using convert_field_value_int [of 0 "[''smallint'']" "[''UInt16'']" False S L "Suc 0" "- 1"]
    by (simp add: unsigned_correction_int lower_ascii_examples)
  have r: "convert_record L [PyInt (- 1)] [''smallint''] [''UInt16''] S False = Inr [PyInt 65535]"
    by (simp add: ex convert_record_def bind_err_Inr)
  show ?thesis
    apply (intro conjI impI)
          apply (rule unsigned_correction_int)
         apply (simp add: unsigned_correction_int del: contains.simps)
        apply (simp add: unsigned_correction_int del: contains.simps)
       apply (simp add: unsigned_correction_int del: contains.simps)
      apply (simp add: unsigned_correction_int del: contains.simps)
     apply (simp add: unsigned_correction_int del: contains.simps)
    apply (rule r)
    done
qed

theorem unsigned_correction_sequential_witness:
  "(- 1 :: int) < 0 \<and> \<not> contains ''mediumint'' (lower ''int'')
   \<and> contains ''UInt32'' ''Nullable(UInt32)'' \<and> \<not> contains ''UInt8'' ''Nullable(UInt32)''
   \<and> \<not> contains ''UInt16'' ''Nullable(UInt32)'' \<and> \<not> contains ''UInt64'' ''Nullable(UInt32)''
   \<and> unsigned_correction ''int'' ''Nullable(UInt32)'' (PyInt (- 1)) = Inr (PyInt 4294967295)
   \<and> - (2 ^ 24) \<le> (- 5 :: int) \<and> (- 5 :: int) < 0 \<and> contains ''mediumint'' (lower ''MediumInt'')
   \<and> unsigned_correction ''MediumInt'' ''UInt32'' (PyInt (- 5)) = Inr (PyInt 16777211)
   \<and> convert_record failing_externals [PyInt (- 1)] [''smallint''] [''UInt16''] (structure_of []) False
       = Inr [PyInt 65535]"
  using unsigned_correction_sequential [of "''int''" "''Nullable(UInt32)''" "- 1"
          failing_externals "structure_of []"]
        unsigned_correction_sequential [of "''MediumInt''" "''UInt32''" "- 5"
          failing_externals "structure_of []"]
  by (simp add: lower_ascii_examples)









section \<open>Properties of convert_alter_query\<close>

lemma bind_err_neq: "(\<And>x. f x \<noteq> Inr y) \<Longrightarrow> bind_err m f \<noteq> Inr y"
  by (cases m) (simp_all add: bind_err_def)

lemma contains_char: "contains [c] s \<longleftrightarrow> c \<in> set s"
  by (induction s) auto

lemma length_split_on_loop: "length (split_on_loop sep s w) = Suc (count_list s sep)"
  by (induction s arbitrary: w) auto

lemma hd_split_on_loop_nonempty: "split_on_loop sep s w \<noteq> []"
  by (induction s arbitrary: w) auto

lemma get_db_and_table_name_None:
  "get_db_and_table_name (init_converter None) token db_name = Inr (d, t, m) \<Longrightarrow>
     m \<and> d = strip_sql_name (if contains ''.'' token then hd (split_on (CHR ''.'') token) else db_name)"
  by (auto simp: get_db_and_table_name_def init_converter_def bind_err_def Let_def
        split: if_splits list.splits simp del: contains.simps)

lemma get_db_and_table_name_returns:
  assumes "count_list token (CHR ''.'') \<le> 1"
  shows "\<exists>d t. get_db_and_table_name (init_converter None) token db_name = Inr (d, t, True)"
proof (cases "contains ''.'' token")
  case False
  then show ?thesis
    by (simp add: get_db_and_table_name_def init_converter_def bind_err_def Let_def
          del: contains.simps)
next
  case True
  then have "CHR ''.'' \<in> set token" by (simp add: contains_char)
  then have "count_list token (CHR ''.'') \<noteq> 0" by (simp add: count_list_0_iff)
  with assms have "length (split_on (CHR ''.'') token) = 2"
    by (simp add: split_on_def length_split_on_loop)
  then obtain a b where ab: "split_on (CHR ''.'') token = [a, b]"
    by (auto simp: numeral_2_eq_2 length_Suc_conv)
  show ?thesis
    using True
    by (simp add: get_db_and_table_name_def init_converter_def bind_err_def Let_def ab
          del: contains.simps)
qed


lemma convert_alter_query_not_excluded:
  "convert_alter_query (init_converter None) H q db_name st \<noteq> Inr Excluded"
proof -
  have inner: "bind_err (get_db_and_table_name (init_converter None) t2 db_name) g \<noteq> Inr Excluded"
    if g: "\<And>d t. g (d, t, True) \<noteq> Inr Excluded" for t2 and g :: "string \<times> string \<times> bool \<Rightarrow> error + 'a alter_outcome"
  proof (cases "get_db_and_table_name (init_converter None) t2 db_name")
    case (Inl e)
    then show ?thesis by (simp add: bind_err_def)
  next
    case (Inr r)
    obtain d t m where r: "r = (d, t, m)" by (cases r)
    with Inr get_db_and_table_name_None [of t2 db_name d t m] have "m" by simp
    with Inr r g show ?thesis by (simp add: bind_err_def)
  qed
  have if_neq: "(if c then a else b) \<noteq> y" if "c \<Longrightarrow> a \<noteq> y" "\<not> c \<Longrightarrow> b \<noteq> y"
    for c and a b y :: "error + 'a alter_outcome"
    using that by simp
  show ?thesis
    unfolding convert_alter_query_def Let_def
    apply (rule bind_err_neq)
    apply (rule bind_err_neq)
    apply (rule if_neq, simp)
    apply (rule bind_err_neq)
    apply (rule if_neq, simp)
    apply (rule bind_err_neq)
    apply (rule inner)
    apply (simp add: bind_err_neq)
    done
qed

lemma get_db_and_table_name_value:
  assumes "count_list token (CHR ''.'') \<le> 1"
  shows "get_db_and_table_name (init_converter None) token db_name =
           Inr (strip_sql_name (if contains ''.'' token then hd (split_on (CHR ''.'') token)
                                else db_name),
                strip_sql_name (if contains ''.'' token then last (split_on (CHR ''.'') token)
                                else token),
                True)"
proof (cases "contains ''.'' token")
  case False
  then show ?thesis
    by (simp add: get_db_and_table_name_def init_converter_def bind_err_def Let_def
          del: contains.simps)
next
  case True
  then have "CHR ''.'' \<in> set token" by (simp add: contains_char)
  then have "count_list token (CHR ''.'') \<noteq> 0" by (simp add: count_list_0_iff)
  with assms have "length (split_on (CHR ''.'') token) = 2"
    by (simp add: split_on_def length_split_on_loop)
  then obtain a b where ab: "split_on (CHR ''.'') token = [a, b]"
    by (auto simp: numeral_2_eq_2 length_Suc_conv)
  show ?thesis
    using True
    by (simp add: get_db_and_table_name_def init_converter_def bind_err_def Let_def ab
          del: contains.simps)
qed

lemma convert_alter_query_names:
  assumes "basic_validate_query q = Inr mq"
    and "split_ws mq = t0 # t1 # t2 # rest"
    and "lower t0 = ''alter''" and "lower t1 = ''table''"
    and "count_list t2 (CHR ''.'') \<le> 1"
  shows "convert_alter_query (init_converter None) H q db_name st =
           bind_err
             (alter_loop H
                (strip_sql_name (if contains ''.'' t2 then hd (split_on (CHR ''.'') t2)
                                 else db_name))
                (strip_sql_name (if contains ''.'' t2 then last (split_on (CHR ''.'') t2)
                                 else t2))
                mq (split_high_level (join '' '' rest) (CHR '','')) st)
             (\<lambda>st'. Inr (Applied st'))"
proof -
  define d where
    "d = strip_sql_name (if contains ''.'' t2 then hd (split_on (CHR ''.'') t2) else db_name)"
  define t where
    "t = strip_sql_name (if contains ''.'' t2 then last (split_on (CHR ''.'') t2) else t2)"
  have g: "get_db_and_table_name (init_converter None) t2 db_name = Inr (d, t, True)"
    unfolding d_def t_def by (rule get_db_and_table_name_value [OF assms(5)])
  have "convert_alter_query (init_converter None) H q db_name st =
          bind_err (alter_loop H d t mq (split_high_level (join '' '' rest) (CHR '','')) st)
            (\<lambda>st'. Inr (Applied st'))"
    unfolding convert_alter_query_def
    by (simp add: assms(1-4) g bind_err_Inr nth_or_raise_def Let_def)
  then show ?thesis
    unfolding d_def t_def .
qed

text \<open>
  Claim C10. A converter constructed without a replication session has an empty
  override table; \<open>get_db_and_table_name\<close>, whenever it returns, reports a match and
  gives the database name as it was passed or written in the token, only stripped; it
  does return for every token with at most one dot; \<open>convert_alter_query\<close> never takes
  the early return of an excluded table; and on an ALTER TABLE statement it hands to the
  column operations, whatever they are, that same database name, the one passed or the
  one written before the dot, only stripped, together with the stripped table name.
\<close>

theorem converter_without_replicator:
  "types_mapping (init_converter None) = Map.empty
   \<and> (get_db_and_table_name (init_converter None) token db_name = Inr (d, t, m) \<longrightarrow>
        m \<and> d = strip_sql_name
                  (if contains ''.'' token then hd (split_on (CHR ''.'') token) else db_name))
   \<and> (count_list token (CHR ''.'') \<le> 1 \<longrightarrow>
        (\<exists>d' t'. get_db_and_table_name (init_converter None) token db_name = Inr (d', t', True)))
   \<and> convert_alter_query (init_converter None) H q db_name st \<noteq> Inr Excluded
   \<and> (basic_validate_query q = Inr mq \<and> split_ws mq = t0 # t1 # t2 # rest
        \<and> lower t0 = ''alter'' \<and> lower t1 = ''table'' \<and> count_list t2 (CHR ''.'') \<le> 1 \<longrightarrow>
        convert_alter_query (init_converter None) H q db_name st =
          bind_err
            (alter_loop H
               (strip_sql_name (if contains ''.'' t2 then hd (split_on (CHR ''.'') t2)
                                else db_name))
               (strip_sql_name (if contains ''.'' t2 then last (split_on (CHR ''.'') t2)
                                else t2))
               mq (split_high_level (join '' '' rest) (CHR '','')) st)
            (\<lambda>st'. Inr (Applied st')))"
proof -
  have tm: "types_mapping (init_converter None) = Map.empty"
    by (simp add: init_converter_def)
  show ?thesis
    using get_db_and_table_name_None [of token db_name d t m]
      get_db_and_table_name_returns [of token db_name]
      convert_alter_query_not_excluded [of H q db_name st] tm
      convert_alter_query_names [of q mq t0 t1 t2 rest H db_name st]
    by blast
qed

lemma strip_examples:
  "strip ''shop'' = ''shop''" "strip ''orders'' = ''orders''" "strip ''src'' = ''src''"
  by (simp_all add: strip_def lstrip_def rstrip_def is_space_def)

lemma alter_example_tokens:
  "basic_validate_query ''ALTER TABLE shop.orders ADD COLUMN c INT'' =
     Inr ''ALTER TABLE shop.orders ADD COLUMN c INT''"
  "split_ws ''ALTER TABLE shop.orders ADD COLUMN c INT'' =
     [''ALTER'', ''TABLE'', ''shop.orders'', ''ADD'', ''COLUMN'', ''c'', ''INT'']"
  "lower ''ALTER'' = ''alter''" "lower ''TABLE'' = ''table''"
  by (simp_all add: basic_validate_query_def split_ws_def strip_def lstrip_def rstrip_def
        is_space_def endswith_def lower_def lower_char_def char_of_def bit_0 Let_def)

lemma alter_example_loop:
  "alter_loop logging_handlers ''shop'' ''orders'' ''ALTER TABLE shop.orders ADD COLUMN c INT''
     (split_high_level (join '' '' [''ADD'', ''COLUMN'', ''c'', ''INT'']) (CHR '','')) [] =
   Inr [[''add'', ''shop'', ''orders'', ''c'', ''INT'']]"
  by (simp add: split_high_level_def alter_subquery_def logging_handlers_def skipped_keywords_def
        split_ws_def strip_def lstrip_def rstrip_def is_space_def lower_def lower_char_def
        char_of_def bit_0 bind_err_def nth_or_raise_def Let_def)

theorem converter_without_replicator_witness:
  "get_db_and_table_name (init_converter None) ''shop.orders'' ''src'' = Inr (''shop'', ''orders'', True)
   \<and> ''shop'' = strip_sql_name (if contains ''.'' ''shop.orders''
                                 then hd (split_on (CHR ''.'') ''shop.orders'') else ''src'')
   \<and> count_list ''shop.orders'' (CHR ''.'') \<le> 1
   \<and> convert_alter_query (init_converter None) logging_handlers
        ''ALTER TABLE shop.orders ADD COLUMN c INT'' ''src'' [] \<noteq> Inr Excluded
   \<and> basic_validate_query ''ALTER TABLE shop.orders ADD COLUMN c INT'' =
        Inr ''ALTER TABLE shop.orders ADD COLUMN c INT''
   \<and> split_ws ''ALTER TABLE shop.orders ADD COLUMN c INT'' =
        [''ALTER'', ''TABLE'', ''shop.orders'', ''ADD'', ''COLUMN'', ''c'', ''INT'']
   \<and> convert_alter_query (init_converter None) logging_handlers
        ''ALTER TABLE shop.orders ADD COLUMN c INT'' ''src'' [] =
        Inr (Applied [[''add'', ''shop'', ''orders'', ''c'', ''INT'']])"
proof -
  have g: "get_db_and_table_name (init_converter None) ''shop.orders'' ''src'' =
           Inr (''shop'', ''orders'', True)"
    by (simp add: get_db_and_table_name_def init_converter_def bind_err_def split_on_def
          strip_sql_name_def strip_examples endswith_def Let_def)
  have n: "strip_sql_name (hd (split_on (CHR ''.'') ''shop.orders'')) = ''shop''"
    "strip_sql_name (last (split_on (CHR ''.'') ''shop.orders'')) = ''orders''"
    by (simp_all add: split_on_def strip_sql_name_def strip_examples endswith_def)
  show ?thesis
    using converter_without_replicator [of "''shop.orders''" "''src''" "''shop''" "''orders''" True
            logging_handlers "''ALTER TABLE shop.orders ADD COLUMN c INT''" "[]"
            "''ALTER TABLE shop.orders ADD COLUMN c INT''" "''ALTER''" "''TABLE''"
            "''shop.orders''" "[''ADD'', ''COLUMN'', ''c'', ''INT'']"]
      g n alter_example_tokens alter_example_loop
    by (simp add: bind_err_Inr)
qed

lemma alter_subquery_dispatch:
  assumes "split_ws (strip subquery) = t0 # t1 # rest"
  shows "alter_subquery H db_name tbl mysql_query subquery st =
     (let tokens = (if lower t1 = ''column'' then rest else t1 # rest) in
      if lower t0 = ''add'' then
        bind_err (nth_or_raise tokens 0) (\<lambda>t.
          if lower t \<in> set skipped_keywords then Inr st
          else convert_alter_table_add_column H db_name tbl tokens st)
      else if lower t0 = ''drop'' then
        bind_err (nth_or_raise tokens 0) (\<lambda>t.
          if lower t \<in> set skipped_keywords then Inr st
          else convert_alter_table_drop_column H db_name tbl tokens st)
      else if lower t0 = ''modify'' then convert_alter_table_modify_column H db_name tbl tokens st
      else if lower t0 = ''alter'' then Inr st
      else if lower t0 = ''auto_increment'' then Inr st
      else if lower t0 = ''change'' then convert_alter_table_change_column H db_name tbl tokens st
      else Inl (Exception (''operation '' @ lower t0 @ '' not implement, query: ''
                  @ strip subquery @ '', full query: '' @ mysql_query)))"
  unfolding alter_subquery_def Let_def assms
  by (simp only: nth_or_raise_def bind_err_def list.sel length_Cons nth_Cons_0
        zero_less_Suc if_True sum.case)

lemma alter_subquery_noop:
  assumes "split_ws (strip subquery) = t0 # t1 # rest"
    and "lower t0 = ''alter'' \<or> lower t0 = ''auto_increment''"
  shows "alter_subquery H db_name tbl mysql_query subquery st = Inr st"
  using assms(2) unfolding alter_subquery_dispatch [OF assms(1)] Let_def
  by (elim disjE) simp_all

lemma alter_subquery_unknown:
  assumes "split_ws (strip subquery) = t0 # t1 # rest"
    and "lower t0 \<noteq> ''add''" "lower t0 \<noteq> ''drop''" "lower t0 \<noteq> ''modify''"
        "lower t0 \<noteq> ''change''" "lower t0 \<noteq> ''alter''" "lower t0 \<noteq> ''auto_increment''"
  shows "alter_subquery H db_name tbl mysql_query subquery st =
         Inl (Exception (''operation '' @ lower t0 @ '' not implement, query: ''
                @ strip subquery @ '', full query: '' @ mysql_query))"
  unfolding alter_subquery_dispatch [OF assms(1)] Let_def
  by (simp only: assms(2-7) if_False)

lemma alter_subquery_skipped:
  assumes "split_ws (strip subquery) = t0 # t1 # rest"
    and "lower t0 = ''add'' \<or> lower t0 = ''drop''"
    and "(if lower t1 = ''column'' then rest else t1 # rest) = k # others"
    and "lower k \<in> {''constraint'', ''index'', ''foreign'', ''unique''}"
  shows "alter_subquery H db_name tbl mysql_query subquery st = Inr st"
proof -
  have k: "lower k \<in> set skipped_keywords"
    using assms(4) by (simp add: skipped_keywords_def)
  have n: "nth_or_raise (k # others) 0 = Inr k"
    by (simp add: nth_or_raise_def)
  from assms(2) show ?thesis
    unfolding alter_subquery_dispatch [OF assms(1)] Let_def assms(3)
    by (elim disjE) (simp_all add: n k bind_err_def)
qed

lemma alter_subquery_one_token:
  assumes "split_ws (strip subquery) = [t0]"
  shows "alter_subquery H db_name tbl mysql_query subquery st = Inl IndexError"
  using assms by (simp add: alter_subquery_def nth_or_raise_def bind_err_def Let_def)

text \<open>
  Claim C8. A sub-operation of at least two words is dispatched as the lemmas above say:
  ADD or DROP of a constraint, index, foreign key or unique key is skipped, ALTER and
  AUTO_INCREMENT do nothing, and an unknown leading keyword fails with a message that
  names the operation, the sub-operation and the statement. A sub-operation of a single
  word never gets that far: the test for the optional COLUMN keyword reads a token that
  is not there. So \<open>ENGINE=InnoDB\<close> fails with the interpreter's index error, while
  \<open>RENAME TO u\<close> fails with the message that names it.
\<close>

theorem convert_alter_query_single_token:
  "convert_alter_query (init_converter None) H ''ALTER TABLE t ENGINE=InnoDB'' ''db'' st =
     Inl IndexError
   \<and> convert_alter_query (init_converter None) H ''ALTER TABLE t RENAME TO u'' ''db'' st =
     Inl (Exception
       ''operation rename not implement, query: RENAME TO u, full query: ALTER TABLE t RENAME TO u'')"
proof -
  have v1: "basic_validate_query ''ALTER TABLE t ENGINE=InnoDB'' = Inr ''ALTER TABLE t ENGINE=InnoDB''"
    by (simp add: basic_validate_query_def strip_def lstrip_def rstrip_def is_space_def endswith_def)
  have v2: "basic_validate_query ''ALTER TABLE t RENAME TO u'' = Inr ''ALTER TABLE t RENAME TO u''"
    by (simp add: basic_validate_query_def strip_def lstrip_def rstrip_def is_space_def endswith_def)
  have w1: "split_ws ''ALTER TABLE t ENGINE=InnoDB'' = [''ALTER'', ''TABLE'', ''t'', ''ENGINE=InnoDB'']"
    by (simp add: split_ws_def is_space_def)
  have w2: "split_ws ''ALTER TABLE t RENAME TO u'' = [''ALTER'', ''TABLE'', ''t'', ''RENAME'', ''TO'', ''u'']"
    by (simp add: split_ws_def is_space_def)
  have lo: "lower ''ALTER'' = ''alter''" "lower ''TABLE'' = ''table''" "lower ''RENAME'' = ''rename''"
    by (simp_all add: lower_def lower_char_def char_of_def bit_0)
  have g: "get_db_and_table_name (init_converter None) ''t'' ''db'' = Inr (''db'', ''t'', True)"
    by (simp add: get_db_and_table_name_def init_converter_def bind_err_def
          strip_sql_name_def strip_def lstrip_def rstrip_def is_space_def endswith_def Let_def)
  have s1: "split_high_level ''ENGINE=InnoDB'' (CHR '','') = [''ENGINE=InnoDB'']"
    by (simp add: split_high_level_def strip_def lstrip_def rstrip_def is_space_def)
  have s2: "split_high_level ''RENAME TO u'' (CHR '','') = [''RENAME TO u'']"
    by (simp add: split_high_level_def strip_def lstrip_def rstrip_def is_space_def)
  have t1: "split_ws (strip ''ENGINE=InnoDB'') = [''ENGINE=InnoDB'']"
    by (simp add: split_ws_def strip_def lstrip_def rstrip_def is_space_def)
  have t2: "split_ws (strip ''RENAME TO u'') = [''RENAME'', ''TO'', ''u'']"
       "strip ''RENAME TO u'' = ''RENAME TO u''"
    by (simp_all add: split_ws_def strip_def lstrip_def rstrip_def is_space_def)
  have a1: "alter_subquery H ''db'' ''t'' q ''ENGINE=InnoDB'' st = Inl IndexError" for q
    using alter_subquery_one_token [OF t1] .
  have a2: "alter_subquery H ''db'' ''t'' q ''RENAME TO u'' st =
      Inl (Exception (''operation rename not implement, query: RENAME TO u, full query: '' @ q))" for q
    using alter_subquery_unknown [OF t2(1), of H "''db''" "''t''" q st]
    by (simp add: lo t2(2))
  show ?thesis
    by (simp add: convert_alter_query_def v1 v2 w1 w2 lo g s1 s2 a1 a2 bind_err_def
          nth_or_raise_def Let_def)
qed



end
